theory Spec2Isabelle
  imports Complex_Main "HOL-Library.Word"
begin

unbundle bit_operations_syntax

section \<open>The HllSet wrapper of core/hllset\_wrapper.py\<close>

text \<open>
  The module wraps sketches that live in a foreign Julia runtime (\<^verbatim>\<open>Main\<close>, loaded from
  HllSets.jl). A Python \<^verbatim>\<open>HllSet\<close> object holds four scalar fields and a reference
  \<^verbatim>\<open>hll\<close> to a Julia sketch. Both kinds of object are mutable and can be shared, so the
  model keeps two stores: the Python \<^verbatim>\<open>HllSet\<close> objects and the Julia sketches, each a
  list indexed by address. Allocation appends, so an address is fresh exactly when it is
  the length of the store.

  Python floats are modelled as \<^typ>\<open>real\<close>: rounding, infinities and NaN are not part
  of the model. Python ints are \<^typ>\<open>int\<close>.
\<close>

subsection \<open>Values and errors\<close>

type_synonym ref = nat

type_synonym jref = nat

datatype error =
    ValueError
  | UnicodeDecodeError
  | ZeroDivisionError
  | ConfigError
  | ConfigMismatchError
  | InputError

text \<open>
  The Python values that reach the wrapper as elements, dictionary keys and values, or
  as the right operand of \<^verbatim>\<open>==\<close>. A \<^verbatim>\<open>str\<close> is kept as its UTF-8 encoding.
\<close>

datatype pyval =
    PyNone
  | PyBool bool
  | PyInt int
  | PyFloat real
  | PyStr string
  | PyBytes string
  | PyHllSet ref

text \<open>\<^verbatim>\<open>isinstance(x, HllSet)\<close>: the module defines no subclass of \<^verbatim>\<open>HllSet\<close>.\<close>

fun isinstance_HllSet :: "pyval \<Rightarrow> bool" where
  "isinstance_HllSet (PyHllSet r) = True"
| "isinstance_HllSet x = False"

fun isinstance_bytes :: "pyval \<Rightarrow> bool" where
  "isinstance_bytes (PyBytes b) = True"
| "isinstance_bytes x = False"

text \<open>The dataclass \<^verbatim>\<open>BSSMetrics(tau, rho)\<close>.\<close>

datatype BSSMetrics = BSSMetrics (m_tau: real) (m_rho: real)

text \<open>The fields \<^verbatim>\<open>self.P, self.tau, self.rho, self.seed, self.hll\<close> of an \<^verbatim>\<open>HllSet\<close>.\<close>

record hllset =
  self_P :: int
  self_tau :: real
  self_rho :: real
  self_seed :: int
  self_hll :: jref

record 'h state =
  objs :: "hllset list"
  jl :: "'h list"

subsection \<open>Computations that may raise\<close>

text \<open>
  A call returns a value or raises, and in both cases leaves a store behind: what was
  written before an exception stays written.
\<close>

type_synonym ('h, 'a) py = "'h state \<Rightarrow> (error + 'a) \<times> 'h state"

definition returnE :: "'a \<Rightarrow> ('h, 'a) py" where
  "returnE x = (\<lambda>s. (Inr x, s))"

definition raiseE :: "error \<Rightarrow> ('h, 'a) py" where
  "raiseE e = (\<lambda>s. (Inl e, s))"

definition bindE :: "('h, 'a) py \<Rightarrow> ('a \<Rightarrow> ('h, 'b) py) \<Rightarrow> ('h, 'b) py" where
  "bindE m f = (\<lambda>s. case m s of (Inl e, s') \<Rightarrow> (Inl e, s') | (Inr x, s') \<Rightarrow> f x s')"

text \<open>A foreign call that returns a result or raises, lifted without touching the store.\<close>

definition liftE :: "error + 'a \<Rightarrow> ('h, 'a) py" where
  "liftE r = (\<lambda>s. (r, s))"

text \<open>Reading and writing the attributes of the object at an address.\<close>

definition getattr :: "ref \<Rightarrow> (hllset \<Rightarrow> 'a) \<Rightarrow> ('h, 'a) py" where
  "getattr r field = (\<lambda>s. (Inr (field (objs s ! r)), s))"

definition setattr :: "ref \<Rightarrow> (hllset \<Rightarrow> hllset) \<Rightarrow> ('h, unit) py" where
  "setattr r upd = (\<lambda>s. (Inr (), s\<lparr>objs := (objs s)[r := upd (objs s ! r)]\<rparr>))"

subsection \<open>The foreign runtime\<close>

text \<open>
  Modelled from the spec: HllSets.jl is missing from the sources; the wrapper reaches it
  through eight functions of \<^verbatim>\<open>Main\<close>. They are the parameter \<open>J\<close> of every wrapper
  function below, as functions of the contents \<open>'h\<close> of Julia sketches: what such a
  function returns depends on the register contents of its arguments only.
  \<^verbatim>\<open>HllSet\<close>, \<^verbatim>\<open>add!\<close> and the binary functions may raise; \<open>jl_count\<close> stands for
  \<^verbatim>\<open>float(Main.count(h))\<close>, to which the specification gives no failure (4.3).
\<close>

record 'h julia =
  jl_HllSet :: "int \<Rightarrow> error + 'h"
  jl_add :: "'h \<Rightarrow> pyval \<Rightarrow> error + 'h"
  jl_count :: "'h \<Rightarrow> real"
  jl_union :: "'h \<Rightarrow> 'h \<Rightarrow> error + 'h"
  jl_intersect :: "'h \<Rightarrow> 'h \<Rightarrow> error + 'h"
  jl_diff :: "'h \<Rightarrow> 'h \<Rightarrow> error + ('h \<times> 'h \<times> 'h)"
  jl_set_comp :: "'h \<Rightarrow> 'h \<Rightarrow> error + 'h"
  jl_isequal :: "'h \<Rightarrow> 'h \<Rightarrow> error + bool"

text \<open>
  Modelled from the spec: a sketch returned by the missing HllSets.jl is a new Julia
  object (4.4: operators ``allocate and return new sketches, never aliasing or mutating
  their operands'').
\<close>

definition jl_alloc :: "'h \<Rightarrow> ('h, jref) py" where
  "jl_alloc h = (\<lambda>s. (Inr (length (jl s)), s\<lparr>jl := jl s @ [h]\<rparr>))"

text \<open>
  Modelled from the spec: the call \<^verbatim>\<open>Main.HllSet(P)\<close> into the missing HllSets.jl returns
  a new sketch or raises (6).
\<close>

definition Main_HllSet :: "'h julia \<Rightarrow> int \<Rightarrow> ('h, jref) py" where
  "Main_HllSet J p = bindE (liftE (jl_HllSet J p)) jl_alloc"

text \<open>
  Modelled from the spec: the call \<^verbatim>\<open>add!(h, element)\<close> into the missing HllSets.jl
  changes the sketch \<open>h\<close> in place; when it raises, the sketch is as it was (7: ``no
  operation is ever partially applied to a register array'').
\<close>

definition Main_add :: "'h julia \<Rightarrow> jref \<Rightarrow> pyval \<Rightarrow> ('h, unit) py" where
  "Main_add J r element =
     (\<lambda>s. case jl_add J (jl s ! r) element of
            Inl e \<Rightarrow> (Inl e, s)
          | Inr h \<Rightarrow> (Inr (), s\<lparr>jl := (jl s)[r := h]\<rparr>))"

text \<open>
  Modelled from the spec: the call \<^verbatim>\<open>float(Main.count(h))\<close> into the missing HllSets.jl
  reads the sketch (4.3).
\<close>

definition Main_count :: "'h julia \<Rightarrow> jref \<Rightarrow> ('h, real) py" where
  "Main_count J r = (\<lambda>s. (Inr (jl_count J (jl s ! r)), s))"

text \<open>
  Modelled from the spec: the call \<^verbatim>\<open>Main.union(a, b)\<close> into the missing HllSets.jl reads
  both sketches and returns a new one, or raises (4.4: ``all operators take two sketches
  of identical P and return NEW sketch(es); operands are never mutated'').
\<close>

definition Main_union :: "'h julia \<Rightarrow> jref \<Rightarrow> jref \<Rightarrow> ('h, jref) py" where
  "Main_union J a b = (\<lambda>s. bindE (liftE (jl_union J (jl s ! a) (jl s ! b))) jl_alloc s)"

text \<open>
  Modelled from the spec: the call \<^verbatim>\<open>Main.intersect(a, b)\<close> into the missing HllSets.jl,
  as for \<^verbatim>\<open>union\<close> (4.4).
\<close>

definition Main_intersect :: "'h julia \<Rightarrow> jref \<Rightarrow> jref \<Rightarrow> ('h, jref) py" where
  "Main_intersect J a b = (\<lambda>s. bindE (liftE (jl_intersect J (jl s ! a) (jl s ! b))) jl_alloc s)"

text \<open>
  Modelled from the spec: the call \<^verbatim>\<open>Main.set_comp(a, b)\<close> into the missing HllSets.jl,
  as for \<^verbatim>\<open>union\<close> (4.4).
\<close>

definition Main_set_comp :: "'h julia \<Rightarrow> jref \<Rightarrow> jref \<Rightarrow> ('h, jref) py" where
  "Main_set_comp J a b = (\<lambda>s. bindE (liftE (jl_set_comp J (jl s ! a) (jl s ! b))) jl_alloc s)"

text \<open>
  Modelled from the spec: the call \<^verbatim>\<open>Main.diff(a, b)\<close> into the missing HllSets.jl reads
  both sketches and returns three new ones, \<^verbatim>\<open>(deleted, retained, new)\<close>, or raises (4.4).
\<close>

definition Main_diff :: "'h julia \<Rightarrow> jref \<Rightarrow> jref \<Rightarrow> ('h, jref \<times> jref \<times> jref) py" where
  "Main_diff J a b =
     (\<lambda>s. bindE (liftE (jl_diff J (jl s ! a) (jl s ! b)))
            (\<lambda>(deleted, retained, new).
               bindE (jl_alloc deleted) (\<lambda>d.
               bindE (jl_alloc retained) (\<lambda>r.
               bindE (jl_alloc new) (\<lambda>n.
               returnE (d, r, n))))) s)"

text \<open>
  Modelled from the spec: the call \<^verbatim>\<open>Main.isequal(a, b)\<close> into the missing HllSets.jl reads
  both sketches and returns a truth value, or raises (4.4).
\<close>

definition Main_isequal :: "'h julia \<Rightarrow> jref \<Rightarrow> jref \<Rightarrow> ('h, bool) py" where
  "Main_isequal J a b = (\<lambda>s. liftE (jl_isequal J (jl s ! a) (jl s ! b)) s)"

subsection \<open>Construction\<close>

text \<open>
  \<^verbatim>\<open>HllSet(P, tau, rho, seed)\<close>: \<^verbatim>\<open>__init__\<close> stores the four scalars and then calls
  \<^verbatim>\<open>Main.HllSet(P)\<close>. When that call raises, the object under construction is never
  bound to a name, so no object appears in the store; otherwise the new object is
  returned.
\<close>

definition HllSet_init :: "'h julia \<Rightarrow> int \<Rightarrow> real \<Rightarrow> real \<Rightarrow> int \<Rightarrow> ('h, ref) py" where
  "HllSet_init J p t r sd =
     bindE (Main_HllSet J p) (\<lambda>h.
       (\<lambda>s. (Inr (length (objs s)),
              s\<lparr>objs := objs s @
                 [\<lparr>self_P = p, self_tau = t, self_rho = r, self_seed = sd, self_hll = h\<rparr>]\<rparr>)))"

text \<open>\<^verbatim>\<open>from_julia(julia_hll, P, tau, rho, seed)\<close>: construct, then replace \<^verbatim>\<open>hll\<close>.\<close>

definition from_julia :: "'h julia \<Rightarrow> jref \<Rightarrow> int \<Rightarrow> real \<Rightarrow> real \<Rightarrow> int \<Rightarrow> ('h, ref) py" where
  "from_julia J julia_hll p t r sd =
     bindE (HllSet_init J p t r sd) (\<lambda>hll.
     bindE (setattr hll (\<lambda>ob. ob\<lparr>self_hll := julia_hll\<rparr>)) (\<lambda>_.
     returnE hll))"

text \<open>The defaults of the keyword arguments \<^verbatim>\<open>tau\<close>, \<^verbatim>\<open>rho\<close> and \<^verbatim>\<open>seed\<close>.\<close>

definition default_tau :: real where
  "default_tau = 7 / 10"

definition default_rho :: real where
  "default_rho = 21 / 100"

definition default_seed :: int where
  "default_seed = 42"

subsection \<open>Insertion and counting\<close>

definition add :: "'h julia \<Rightarrow> ref \<Rightarrow> pyval \<Rightarrow> ('h, unit) py" where
  "add J self element = bindE (getattr self self_hll) (\<lambda>h. Main_add J h element)"

text \<open>\<^verbatim>\<open>add_batch\<close>: the loop calls \<^verbatim>\<open>add!\<close> on \<^verbatim>\<open>self.hll\<close> for each element in turn.\<close>

fun add_batch :: "'h julia \<Rightarrow> ref \<Rightarrow> pyval list \<Rightarrow> ('h, unit) py" where
  "add_batch J self [] = returnE ()"
| "add_batch J self (element # elements) =
     bindE (getattr self self_hll) (\<lambda>h.
     bindE (Main_add J h element) (\<lambda>_.
     add_batch J self elements))"

definition count :: "'h julia \<Rightarrow> ref \<Rightarrow> ('h, real) py" where
  "count J self = bindE (getattr self self_hll) (Main_count J)"

subsection \<open>BSS metrics\<close>

text \<open>Python's \<^verbatim>\<open>/\<close> on floats raises \<^verbatim>\<open>ZeroDivisionError\<close> on a zero divisor.\<close>

definition truediv :: "real \<Rightarrow> real \<Rightarrow> ('h, real) py" where
  "truediv x y = (if y = 0 then raiseE ZeroDivisionError else returnE (x / y))"

text \<open>
  \<^verbatim>\<open>_calculate_bss_metrics(self, other)\<close>. The name loses its leading underscore, which
  an Isabelle name cannot have.
\<close>

definition calculate_bss_metrics :: "'h julia \<Rightarrow> ref \<Rightarrow> ref \<Rightarrow> ('h, BSSMetrics) py" where
  "calculate_bss_metrics J self other =
     bindE (count J other) (\<lambda>count_b.
     if count_b = 0 then returnE (BSSMetrics 0 0)
     else
       bindE (getattr self self_hll) (\<lambda>a.
       bindE (getattr other self_hll) (\<lambda>b.
       bindE (Main_intersect J a b) (\<lambda>intersection_hll.
       bindE (Main_count J intersection_hll) (\<lambda>intersection_count.
       bindE (Main_diff J a b) (\<lambda>(deleted_hll, retained_hll, new_hll).
       bindE (Main_count J deleted_hll) (\<lambda>deleted_count.
       bindE (truediv intersection_count count_b) (\<lambda>t.
       bindE (truediv deleted_count count_b) (\<lambda>r.
       returnE (BSSMetrics t r))))))))))"

definition calculate_bss_to :: "'h julia \<Rightarrow> ref \<Rightarrow> ref \<Rightarrow> ('h, BSSMetrics) py" where
  "calculate_bss_to J self other = calculate_bss_metrics J self other"

subsection \<open>The algebra operators\<close>

text \<open>
  Each operator calls Julia on the two \<^verbatim>\<open>hll\<close> references, wraps every returned sketch
  with \<^verbatim>\<open>HllSet.from_julia(result, self.P)\<close> (default \<^verbatim>\<open>tau\<close>, \<^verbatim>\<open>rho\<close>, \<^verbatim>\<open>seed\<close>) and then
  assigns \<^verbatim>\<open>tau\<close> and \<^verbatim>\<open>rho\<close> of the new object. Three expressions recur in them:
  \<open>combined_tau\<close> is \<^verbatim>\<open>min(self.tau, other.tau)\<close>, \<open>combined_rho\<close> is
  \<^verbatim>\<open>max(self.rho, other.rho)\<close>, and \<open>wrap_result\<close> is \<^verbatim>\<open>HllSet.from_julia(result, self.P)\<close>.
  The method \<^verbatim>\<open>union\<close> is \<open>union_hll\<close> here and \<^verbatim>\<open>__eq__\<close> is \<open>eq_hll\<close>, their names being
  taken or not allowed.
\<close>

definition combined_tau :: "ref \<Rightarrow> ref \<Rightarrow> ('h, real) py" where
  "combined_tau self other =
     bindE (getattr self self_tau) (\<lambda>ta.
     bindE (getattr other self_tau) (\<lambda>tb.
     returnE (min ta tb)))"

definition combined_rho :: "ref \<Rightarrow> ref \<Rightarrow> ('h, real) py" where
  "combined_rho self other =
     bindE (getattr self self_rho) (\<lambda>ra.
     bindE (getattr other self_rho) (\<lambda>rb.
     returnE (max ra rb)))"

definition wrap_result :: "'h julia \<Rightarrow> ref \<Rightarrow> jref \<Rightarrow> ('h, ref) py" where
  "wrap_result J self result =
     bindE (getattr self self_P) (\<lambda>p.
     from_julia J result p default_tau default_rho default_seed)"

definition union_hll :: "'h julia \<Rightarrow> ref \<Rightarrow> ref \<Rightarrow> ('h, ref) py" where
  "union_hll J self other =
     bindE (getattr self self_hll) (\<lambda>a.
     bindE (getattr other self_hll) (\<lambda>b.
     bindE (Main_union J a b) (\<lambda>result.
     bindE (wrap_result J self result) (\<lambda>union_set.
     bindE (combined_tau self other) (\<lambda>t.
     bindE (setattr union_set (\<lambda>ob. ob\<lparr>self_tau := t\<rparr>)) (\<lambda>_.
     bindE (combined_rho self other) (\<lambda>r.
     bindE (setattr union_set (\<lambda>ob. ob\<lparr>self_rho := r\<rparr>)) (\<lambda>_.
     returnE union_set))))))))"

definition intersection :: "'h julia \<Rightarrow> ref \<Rightarrow> ref \<Rightarrow> ('h, ref) py" where
  "intersection J self other =
     bindE (getattr self self_hll) (\<lambda>a.
     bindE (getattr other self_hll) (\<lambda>b.
     bindE (Main_intersect J a b) (\<lambda>result.
     bindE (wrap_result J self result) (\<lambda>intersect_set.
     bindE (combined_tau self other) (\<lambda>t.
     bindE (setattr intersect_set (\<lambda>ob. ob\<lparr>self_tau := t\<rparr>)) (\<lambda>_.
     bindE (combined_rho self other) (\<lambda>r.
     bindE (setattr intersect_set (\<lambda>ob. ob\<lparr>self_rho := r\<rparr>)) (\<lambda>_.
     returnE intersect_set))))))))"

text \<open>The loop of \<^verbatim>\<open>difference\<close> over the three new objects.\<close>

fun set_metrics :: "real \<Rightarrow> real \<Rightarrow> ref list \<Rightarrow> ('h, unit) py" where
  "set_metrics t r [] = returnE ()"
| "set_metrics t r (result_set # rest) =
     bindE (setattr result_set (\<lambda>ob. ob\<lparr>self_tau := t\<rparr>)) (\<lambda>_.
     bindE (setattr result_set (\<lambda>ob. ob\<lparr>self_rho := r\<rparr>)) (\<lambda>_.
     set_metrics t r rest))"

definition difference :: "'h julia \<Rightarrow> ref \<Rightarrow> ref \<Rightarrow> ('h, ref \<times> ref \<times> ref) py" where
  "difference J self other =
     bindE (getattr self self_hll) (\<lambda>a.
     bindE (getattr other self_hll) (\<lambda>b.
     bindE (Main_diff J a b) (\<lambda>(deleted, retained, new).
     bindE (wrap_result J self deleted) (\<lambda>deleted_set.
     bindE (wrap_result J self retained) (\<lambda>retained_set.
     bindE (wrap_result J self new) (\<lambda>new_set.
     bindE (combined_tau self other) (\<lambda>t.
     bindE (combined_rho self other) (\<lambda>r.
     bindE (set_metrics t r [deleted_set, retained_set, new_set]) (\<lambda>_.
     returnE (deleted_set, retained_set, new_set))))))))))"

definition complement :: "'h julia \<Rightarrow> ref \<Rightarrow> ref \<Rightarrow> ('h, ref) py" where
  "complement J self other =
     bindE (getattr self self_hll) (\<lambda>a.
     bindE (getattr other self_hll) (\<lambda>b.
     bindE (Main_set_comp J a b) (\<lambda>result.
     bindE (wrap_result J self result) (\<lambda>comp_set.
     bindE (calculate_bss_metrics J self other) (\<lambda>metrics.
     bindE (setattr comp_set (\<lambda>ob. ob\<lparr>self_tau := m_tau metrics\<rparr>)) (\<lambda>_.
     bindE (setattr comp_set (\<lambda>ob. ob\<lparr>self_rho := m_rho metrics\<rparr>)) (\<lambda>_.
     returnE comp_set)))))))"

text \<open>\<^verbatim>\<open>__eq__(self, other)\<close>, for any Python value \<^verbatim>\<open>other\<close>.\<close>

definition eq_hll :: "'h julia \<Rightarrow> ref \<Rightarrow> pyval \<Rightarrow> ('h, bool) py" where
  "eq_hll J self other =
     (if \<not> isinstance_HllSet other then returnE False
      else case other of
             PyHllSet r \<Rightarrow>
               bindE (getattr self self_hll) (\<lambda>a.
               bindE (getattr r self_hll) (\<lambda>b.
               Main_isequal J a b))
           | _ \<Rightarrow> returnE False)"

subsection \<open>Building a sketch from a Redis hash\<close>

text \<open>
  \<^verbatim>\<open>bytes.decode()\<close> is strict UTF-8: it raises \<^verbatim>\<open>UnicodeDecodeError\<close> unless the bytes are
  well-formed UTF-8 (no overlong forms, no surrogates, nothing above U+10FFFF).
\<close>

definition between :: "nat \<Rightarrow> nat \<Rightarrow> char \<Rightarrow> bool" where
  "between lo hi c = (lo \<le> of_char c \<and> of_char c \<le> (hi :: nat))"

fun utf8_wellformed :: "string \<Rightarrow> bool" where
  "utf8_wellformed [] = True"
| "utf8_wellformed [b0] = between 0x00 0x7F b0"
| "utf8_wellformed [b0, b1] =
     (if between 0x00 0x7F b0 then utf8_wellformed [b1]
      else between 0xC2 0xDF b0 \<and> between 0x80 0xBF b1)"
| "utf8_wellformed [b0, b1, b2] =
     (if between 0x00 0x7F b0 then utf8_wellformed [b1, b2]
      else if between 0xC2 0xDF b0 then between 0x80 0xBF b1 \<and> utf8_wellformed [b2]
      else (between 0xE0 0xE0 b0 \<and> between 0xA0 0xBF b1
            \<or> between 0xE1 0xEC b0 \<and> between 0x80 0xBF b1
            \<or> between 0xED 0xED b0 \<and> between 0x80 0x9F b1
            \<or> between 0xEE 0xEF b0 \<and> between 0x80 0xBF b1)
           \<and> between 0x80 0xBF b2)"
| "utf8_wellformed (b0 # b1 # b2 # b3 # bs) =
     (if between 0x00 0x7F b0 then utf8_wellformed (b1 # b2 # b3 # bs)
      else if between 0xC2 0xDF b0 then between 0x80 0xBF b1 \<and> utf8_wellformed (b2 # b3 # bs)
      else if between 0xE0 0xEF b0 then
           (between 0xE0 0xE0 b0 \<and> between 0xA0 0xBF b1
            \<or> between 0xE1 0xEC b0 \<and> between 0x80 0xBF b1
            \<or> between 0xED 0xED b0 \<and> between 0x80 0x9F b1
            \<or> between 0xEE 0xEF b0 \<and> between 0x80 0xBF b1)
           \<and> between 0x80 0xBF b2 \<and> utf8_wellformed (b3 # bs)
      else (between 0xF0 0xF0 b0 \<and> between 0x90 0xBF b1
            \<or> between 0xF1 0xF3 b0 \<and> between 0x80 0xBF b1
            \<or> between 0xF4 0xF4 b0 \<and> between 0x80 0x8F b1)
           \<and> between 0x80 0xBF b2 \<and> between 0x80 0xBF b3 \<and> utf8_wellformed bs)"

definition decode :: "string \<Rightarrow> error + pyval" where
  "decode b = (if utf8_wellformed b then Inr (PyStr b) else Inl UnicodeDecodeError)"

text \<open>\<^verbatim>\<open>x.decode() if isinstance(x, bytes) else x\<close>\<close>

definition decode_if_bytes :: "pyval \<Rightarrow> error + pyval" where
  "decode_if_bytes x =
     (if isinstance_bytes x then (case x of PyBytes b \<Rightarrow> decode b | _ \<Rightarrow> Inr x)
      else Inr x)"

text \<open>
  The loop of \<^verbatim>\<open>from_dict\<close> over \<^verbatim>\<open>redis_data.items()\<close>; a dictionary is the list of its
  items in iteration order.
\<close>

fun add_items :: "'h julia \<Rightarrow> ref \<Rightarrow> (pyval \<times> pyval) list \<Rightarrow> ('h, unit) py" where
  "add_items J hll [] = returnE ()"
| "add_items J hll ((key, val) # items) =
     bindE (liftE (decode_if_bytes key)) (\<lambda>k.
     bindE (add J hll k) (\<lambda>_.
     bindE (liftE (decode_if_bytes val)) (\<lambda>v.
     bindE (add J hll v) (\<lambda>_.
     add_items J hll items))))"

definition from_dict ::
  "'h julia \<Rightarrow> (pyval \<times> pyval) list \<Rightarrow> int \<Rightarrow> real \<Rightarrow> real \<Rightarrow> int \<Rightarrow> ('h, ref) py" where
  "from_dict J redis_data p t r sd =
     (if redis_data = [] then raiseE ValueError
      else
        bindE (HllSet_init J p t r sd) (\<lambda>hll.
        bindE (add_items J hll redis_data) (\<lambda>_.
        returnE hll)))"

section \<open>A register-array core for the foreign runtime\<close>

text \<open>
  Modelled from the spec: HllSets.jl, which implements \<^verbatim>\<open>Main.HllSet\<close>, \<^verbatim>\<open>add!\<close>, \<^verbatim>\<open>count\<close>,
  \<^verbatim>\<open>union\<close>, \<^verbatim>\<open>intersect\<close>, \<^verbatim>\<open>diff\<close>, \<^verbatim>\<open>set_comp\<close> and \<^verbatim>\<open>isequal\<close>, is missing from the
  sources. This section follows sections 3, 4, 6 and 7 of the specification: a sketch
  is its precision and ``a fixed-length ordered sequence of \<^verbatim>\<open>M = 2^P\<close> registers'', each
  ``a small bounded vector of boolean flags indexed by rank position''. The width of a
  register is the one fact taken from the wrapper: \<^verbatim>\<open>get_counts\<close> reads the field
  \<^verbatim>\<open>counts\<close> as an array of \<^verbatim>\<open>UInt32\<close>, so a register has 32 flags.
\<close>

record sketch =
  sk_P :: nat
  counts :: "32 word list"

text \<open>
  Modelled from the spec: the supported range of the precision, ``document a concrete
  bound, e.g. P in [4, 18]'' (6). HllSets.jl is missing; 4 is the lower bound.
\<close>

definition P_min :: int where
  "P_min = 4"

text \<open>Modelled from the spec: the upper bound of the same range, 18. HllSets.jl is missing.\<close>

definition P_max :: int where
  "P_max = 18"

text \<open>
  Modelled from the spec: ``\<^verbatim>\<open>new(P)\<close>: allocate \<^verbatim>\<open>M = 2^P\<close> registers, all flags unset. No
  failure'' (4.2). HllSets.jl is missing.
\<close>

definition core_new :: "nat \<Rightarrow> sketch" where
  "core_new p = \<lparr>sk_P = p, counts = replicate (2 ^ p) 0\<rparr>"

text \<open>
  Modelled from the spec: ``\<^verbatim>\<open>create(P, seed) -> Sketch\<close>, fails with ConfigError if P is
  outside the supported range'' (6); this is \<^verbatim>\<open>Main.HllSet(P)\<close> of the missing HllSets.jl.
\<close>

definition core_create :: "int \<Rightarrow> error + sketch" where
  "core_create p =
     (if P_min \<le> p \<and> p \<le> P_max then Inr (core_new (nat p)) else Inl ConfigError)"

text \<open>
  Modelled from the spec: the serialisation of an element to bytes, which the missing
  hasher needs (4.1: ``if the element cannot be serialized to bytes, fails with an
  InputError''). The specification does not say which values serialise: here strings and
  bytes are their own bytes, an integer is the eight bytes of its 64-bit two's
  complement, least significant first, and every other value raises InputError.
\<close>

definition int_bytes :: "int \<Rightarrow> string" where
  "int_bytes n = map (\<lambda>i. char_of (unat (drop_bit (8 * i) (word_of_int n :: 64 word)))) [0..<8]"

text \<open>Modelled from the spec: see \<open>int_bytes\<close>; the serialisation of the missing hasher.\<close>

fun serialise :: "pyval \<Rightarrow> error + string" where
  "serialise (PyStr s) = Inr s"
| "serialise (PyBytes b) = Inr b"
| "serialise (PyInt n) = Inr (int_bytes n)"
| "serialise x = Inl InputError"

text \<open>
  Modelled from the spec: the hash of the missing hasher, ``a single fixed, high-quality,
  non-cryptographic hash function (e.g., a 64-bit mix)'' (4.1). The specification names
  none; 64-bit FNV-1a is the one fixed here.
\<close>

definition fnv1a :: "string \<Rightarrow> 64 word" where
  "fnv1a bs = fold (\<lambda>c h. (h XOR of_char c) * 0x100000001B3) bs 0xCBF29CE484222325"

text \<open>
  Modelled from the spec: the register index of the missing hasher, ``\<^verbatim>\<open>index\<close> in
  \<^verbatim>\<open>[0, 2^P)\<close> selects the register'' (4.1): the low \<open>P\<close> bits of the hash.
\<close>

definition index_of :: "nat \<Rightarrow> 64 word \<Rightarrow> nat" where
  "index_of p h = unat (take_bit p h)"

text \<open>
  Modelled from the spec: for the rank of the missing hasher, the position of the first
  set bit of a word at or after position \<open>i\<close>, looking at \<open>n\<close> positions.
\<close>

fun first_set :: "nat \<Rightarrow> nat \<Rightarrow> 64 word \<Rightarrow> nat" where
  "first_set 0 i w = i"
| "first_set (Suc n) i w = (if bit w i then i else first_set n (Suc i) w)"

text \<open>
  Modelled from the spec: the rank of the missing hasher, ``the position of the first set
  bit in the remaining hash bits, clamped to the supported rank range'' (4.1); the rank
  range of a 32-flag register is 0 to 31.
\<close>

definition rank_of :: "nat \<Rightarrow> 64 word \<Rightarrow> nat" where
  "rank_of p h = min 31 (first_set 64 0 (drop_bit p h))"

text \<open>
  Modelled from the spec: ``\<^verbatim>\<open>insert(index, rank)\<close>: set flag[rank] in register[index] if
  not already set'' (4.2). HllSets.jl is missing.
\<close>

definition core_insert :: "sketch \<Rightarrow> nat \<Rightarrow> nat \<Rightarrow> sketch" where
  "core_insert sk i r = sk\<lparr>counts := (counts sk)[i := set_bit r (counts sk ! i)]\<rparr>"

text \<open>
  Modelled from the spec: inserting serialised bytes: hash them and insert at the index
  and rank of the hash (2: ``elements enter through the Hasher/Indexer, which updates the
  Register Array''). HllSets.jl is missing.
\<close>

definition hash_insert :: "sketch \<Rightarrow> string \<Rightarrow> sketch" where
  "hash_insert sk bs =
     core_insert sk (index_of (sk_P sk) (fnv1a bs)) (rank_of (sk_P sk) (fnv1a bs))"

text \<open>
  Modelled from the spec: \<^verbatim>\<open>insert(sketch, element)\<close> (6), the \<^verbatim>\<open>add!\<close> of the missing
  HllSets.jl; an element that does not serialise raises InputError and ``no partial
  register mutation occurs'' (7).
\<close>

definition core_add :: "sketch \<Rightarrow> pyval \<Rightarrow> error + sketch" where
  "core_add sk element =
     (case serialise element of Inl e \<Rightarrow> Inl e | Inr bs \<Rightarrow> Inr (hash_insert sk bs))"

text \<open>
  Modelled from the spec: for the missing estimator, the highest set flag among the
  first \<open>n\<close> of a register, and 0 when none is set (4.3: ``effective max rank = highest
  set flag index (or sentinel if register has no set flags, treated as rank 0
  contribution)'').
\<close>

fun highest_flag :: "nat \<Rightarrow> 32 word \<Rightarrow> nat" where
  "highest_flag 0 w = 0"
| "highest_flag (Suc n) w = (if bit w n then n else highest_flag n w)"

text \<open>Modelled from the spec: the effective maximum rank of a register (4.3), as above.\<close>

definition max_rank :: "32 word \<Rightarrow> nat" where
  "max_rank w = highest_flag 32 w"

text \<open>
  Modelled from the spec: ``\<^verbatim>\<open>alpha_M\<close> is the precision-dependent bias constant'' (4.3) of
  the missing estimator. The specification gives no value; the constants of HyperLogLog
  are used.
\<close>

definition alpha :: "nat \<Rightarrow> real" where
  "alpha m =
     (if m = 16 then 673 / 1000
      else if m = 32 then 697 / 1000
      else if m = 64 then 709 / 1000
      else (7213 / 10000) / (1 + (1079 / 1000) / real m))"

text \<open>
  Modelled from the spec: ``raw estimate = \<^verbatim>\<open>alpha_M * M^2 / sum 2^(-maxRank_i)\<close>'' (4.3) of
  the missing estimator.
\<close>

definition raw_estimate :: "sketch \<Rightarrow> real" where
  "raw_estimate sk =
     alpha (length (counts sk)) * (real (length (counts sk)))\<^sup>2
       / (\<Sum>w\<leftarrow>counts sk. 1 / 2 ^ max_rank w)"

text \<open>
  Modelled from the spec: the number of ``registers with no set flags'' (4.3), for the
  missing estimator.
\<close>

definition empty_registers :: "sketch \<Rightarrow> nat" where
  "empty_registers sk = length (filter (\<lambda>w. w = 0) (counts sk))"

text \<open>
  Modelled from the spec: \<^verbatim>\<open>estimate(sketch)\<close> (4.3), the \<^verbatim>\<open>count\<close> of the missing
  HllSets.jl: ``apply small-range correction (linear counting) when raw estimate
  \<^verbatim>\<open><= 2.5 * M\<close> and there exist registers with no set flags; apply large-range correction
  when raw estimate exceeds \<^verbatim>\<open>2^64 / 30\<close>''; otherwise the raw estimate.
\<close>

definition estimate :: "sketch \<Rightarrow> real" where
  "estimate sk =
     (if raw_estimate sk \<le> (5 / 2) * real (length (counts sk)) \<and> 0 < empty_registers sk
      then real (length (counts sk))
             * ln (real (length (counts sk)) / real (empty_registers sk))
      else if 2 ^ 64 / 30 < raw_estimate sk
      then - (2 ^ 64) * ln (1 - raw_estimate sk / 2 ^ 64)
      else raw_estimate sk)"

text \<open>
  Modelled from the spec: the operators of the missing set algebra engine are
  ``register-wise operators producing new register arrays'' (2); the result has the
  precision of the operands.
\<close>

definition registerwise ::
  "(32 word \<Rightarrow> 32 word \<Rightarrow> 32 word) \<Rightarrow> sketch \<Rightarrow> sketch \<Rightarrow> sketch" where
  "registerwise f a b = \<lparr>sk_P = sk_P a, counts = map2 f (counts a) (counts b)\<rparr>"

text \<open>
  Modelled from the spec: ``all binary operators fail with a ConfigMismatchError if
  A.P \<noteq> B.P'' (4.4), the check of the missing set algebra engine.
\<close>

definition same_P :: "sketch \<Rightarrow> sketch \<Rightarrow> error + 'a \<Rightarrow> error + 'a" where
  "same_P a b r = (if sk_P a \<noteq> sk_P b then Inl ConfigMismatchError else r)"

text \<open>
  Modelled from the spec: ``\<^verbatim>\<open>union(A, B)\<close>: register-wise OR of flag vectors'' (4.4), the
  \<^verbatim>\<open>union\<close> of the missing HllSets.jl.
\<close>

definition core_union :: "sketch \<Rightarrow> sketch \<Rightarrow> error + sketch" where
  "core_union a b = same_P a b (Inr (registerwise (OR) a b))"

text \<open>
  Modelled from the spec: ``\<^verbatim>\<open>intersection(A, B)\<close>: register-wise AND of flag vectors''
  (4.4), the \<^verbatim>\<open>intersect\<close> of the missing HllSets.jl.
\<close>

definition core_intersection :: "sketch \<Rightarrow> sketch \<Rightarrow> error + sketch" where
  "core_intersection a b = same_P a b (Inr (registerwise (AND) a b))"

text \<open>
  Modelled from the spec: ``\<^verbatim>\<open>difference(A, B) -> (deleted, retained, new)\<close>: \<^verbatim>\<open>deleted\<close> =
  flags set in A but not in B, \<^verbatim>\<open>retained\<close> = flags set in both, \<^verbatim>\<open>new\<close> = flags set in B
  but not in A'' (4.4), the \<^verbatim>\<open>diff\<close> of the missing HllSets.jl.
\<close>

definition core_difference :: "sketch \<Rightarrow> sketch \<Rightarrow> error + (sketch \<times> sketch \<times> sketch)" where
  "core_difference a b =
     same_P a b
       (Inr (registerwise (\<lambda>x y. x AND NOT y) a b,
             registerwise (AND) a b,
             registerwise (\<lambda>x y. y AND NOT x) a b))"

text \<open>
  Modelled from the spec: ``\<^verbatim>\<open>complement(A, B)\<close>: register-wise AND-NOT of A's flags by B's
  flags'' (4.4), the \<^verbatim>\<open>set_comp\<close> of the missing HllSets.jl.
\<close>

definition core_complement :: "sketch \<Rightarrow> sketch \<Rightarrow> error + sketch" where
  "core_complement a b = same_P a b (Inr (registerwise (\<lambda>x y. x AND NOT y) a b))"

text \<open>
  Modelled from the spec: ``\<^verbatim>\<open>equals(A, B)\<close>: true iff the two register arrays are
  bit-for-bit identical'' (4.4), the \<^verbatim>\<open>isequal\<close> of the missing HllSets.jl.
\<close>

definition core_equals :: "sketch \<Rightarrow> sketch \<Rightarrow> error + bool" where
  "core_equals a b = same_P a b (Inr (counts a = counts b))"

text \<open>
  Modelled from the spec: the eight functions of the missing HllSets.jl that the wrapper
  calls, gathered as a runtime.
\<close>

definition core :: "sketch julia" where
  "core =
     \<lparr>jl_HllSet = core_create,
      jl_add = core_add,
      jl_count = estimate,
      jl_union = core_union,
      jl_intersect = core_intersection,
      jl_diff = core_difference,
      jl_set_comp = core_complement,
      jl_isequal = core_equals\<rparr>"

section \<open>Vocabulary of the properties\<close>

text \<open>The Julia sketch behind the \<^verbatim>\<open>HllSet\<close> object at an address.\<close>

definition sketch_of :: "'h state \<Rightarrow> ref \<Rightarrow> 'h" where
  "sketch_of s r = jl s ! self_hll (objs s ! r)"

text \<open>
  A reference held by a Python program points to an object of the store, and the \<^verbatim>\<open>hll\<close>
  of that object to a Julia sketch.
\<close>

definition valid :: "'h state \<Rightarrow> ref \<Rightarrow> bool" where
  "valid s r = (r < length (objs s) \<and> self_hll (objs s ! r) < length (jl s))"

text \<open>The object that \<^verbatim>\<open>from_julia(j, p)\<close> builds with the default \<^verbatim>\<open>tau\<close>, \<^verbatim>\<open>rho\<close>, \<^verbatim>\<open>seed\<close>.\<close>

definition wrapper :: "int \<Rightarrow> jref \<Rightarrow> hllset" where
  "wrapper p j =
     \<lparr>self_P = p, self_tau = default_tau, self_rho = default_rho, self_seed = default_seed,
      self_hll = j\<rparr>"

text \<open>The passenger rule: \<open>tau\<close> is the minimum and \<open>rho\<close> the maximum of the operands'.\<close>

definition carries_min_max :: "'h state \<Rightarrow> ref \<Rightarrow> ref \<Rightarrow> 'h state \<Rightarrow> ref \<Rightarrow> bool" where
  "carries_min_max s a b s' u =
     (self_tau (objs s' ! u) = min (self_tau (objs s ! a)) (self_tau (objs s ! b)) \<and>
      self_rho (objs s' ! u) = max (self_rho (objs s ! a)) (self_rho (objs s ! b)))"

text \<open>
  An operand is unchanged from \<open>s\<close> to \<open>s'\<close> when its five fields and the contents of
  its Julia sketch are the same in both. A result is new when neither its address nor the
  address of its Julia sketch existed in \<open>s\<close>.
\<close>

definition same_object :: "'h state \<Rightarrow> 'h state \<Rightarrow> ref \<Rightarrow> bool" where
  "same_object s s' r = (objs s' ! r = objs s ! r \<and> sketch_of s' r = sketch_of s r)"

definition new_object :: "'h state \<Rightarrow> 'h state \<Rightarrow> ref \<Rightarrow> bool" where
  "new_object s s' u =
     (length (objs s) \<le> u \<and> u < length (objs s') \<and>
      length (jl s) \<le> self_hll (objs s' ! u) \<and> self_hll (objs s' ! u) < length (jl s'))"

text \<open>The \<^verbatim>\<open>P\<close> field of a wrapper is the precision of the sketch it wraps.\<close>

definition P_agrees :: "sketch state \<Rightarrow> ref \<Rightarrow> bool" where
  "P_agrees s r = (self_P (objs s ! r) = int (sk_P (sketch_of s r)))"

text \<open>
  Sequential insertion as the specification words it: \<^verbatim>\<open>add(S, e1)\<close>, ..., \<^verbatim>\<open>add(S, en)\<close>,
  one call after the other.
\<close>

fun add_each :: "'h julia \<Rightarrow> ref \<Rightarrow> pyval list \<Rightarrow> ('h, unit) py" where
  "add_each J self [] = returnE ()"
| "add_each J self (e # es) = bindE (add J self e) (\<lambda>_. add_each J self es)"

text \<open>The elements of a dictionary: key and value of every entry, in order.\<close>

fun elements_of :: "(pyval \<times> pyval) list \<Rightarrow> pyval list" where
  "elements_of [] = []"
| "elements_of ((key, val) # items) = key # val # elements_of items"

text \<open>
  Decoding bytes to strings, as the claim words it: a \<^verbatim>\<open>bytes\<close> element can be decoded
  when it is well-formed UTF-8, and then becomes the \<^verbatim>\<open>str\<close> with that encoding; every
  other element is taken as it is.
\<close>

fun decodable :: "pyval \<Rightarrow> bool" where
  "decodable (PyBytes b) = utf8_wellformed b"
| "decodable x = True"

fun decoded :: "pyval \<Rightarrow> pyval" where
  "decoded (PyBytes b) = PyStr b"
| "decoded x = x"

text \<open>
  What inserting a list of elements, one after the other, makes of the contents of a
  sketch: each element is handed to \<^verbatim>\<open>add!\<close> as it stands in the list.
\<close>

fun insert_each :: "'h julia \<Rightarrow> 'h \<Rightarrow> pyval list \<Rightarrow> error + 'h" where
  "insert_each J h [] = Inr h"
| "insert_each J h (x # xs) =
     (case jl_add J h x of Inl e \<Rightarrow> Inl e | Inr h' \<Rightarrow> insert_each J h' xs)"

text \<open>
  The store after \<^verbatim>\<open>HllSet(p, t, r, sd)\<close> was constructed on the store \<open>s\<close> and its Julia
  sketch was brought to the contents \<open>h\<close>: one more Julia sketch and one more object,
  both at the next address.
\<close>

definition built :: "'h state \<Rightarrow> int \<Rightarrow> real \<Rightarrow> real \<Rightarrow> int \<Rightarrow> 'h \<Rightarrow> 'h state" where
  "built s p t r sd h =
     s\<lparr>jl := jl s @ [h],
       objs := objs s @
         [\<lparr>self_P = p, self_tau = t, self_rho = r, self_seed = sd, self_hll = length (jl s)\<rparr>]\<rparr>"

text \<open>The loop of \<^verbatim>\<open>from_dict\<close> seen element by element, for the proofs.\<close>

fun add_elements :: "'h julia \<Rightarrow> ref \<Rightarrow> pyval list \<Rightarrow> ('h, unit) py" where
  "add_elements J hll [] = returnE ()"
| "add_elements J hll (x # xs) =
     bindE (liftE (decode_if_bytes x)) (\<lambda>y.
     bindE (add J hll y) (\<lambda>_.
     add_elements J hll xs))"

subsection \<open>Stores for the examples\<close>

definition no_objects :: "sketch state" where
  "no_objects = \<lparr>objs = [], jl = []\<rparr>"

text \<open>\<^verbatim>\<open>a = HllSet(); b = HllSet()\<close>\<close>

definition two_empty :: "sketch state" where
  "two_empty =
     snd (bindE (HllSet_init core 10 default_tau default_rho default_seed) (\<lambda>a.
          HllSet_init core 10 default_tau default_rho default_seed) no_objects)"

text \<open>\<^verbatim>\<open>a = HllSet(4); b = HllSet.from_julia(Main.HllSet(4), P=5)\<close>\<close>

definition relabelled :: "sketch state" where
  "relabelled =
     snd (bindE (HllSet_init core 4 default_tau default_rho default_seed) (\<lambda>a.
          bindE (Main_HllSet core 4) (\<lambda>j.
          from_julia core j 5 default_tau default_rho default_seed)) no_objects)"

text \<open>\<^verbatim>\<open>a = HllSet(4); b = HllSet(5)\<close>\<close>

definition two_precisions :: "sketch state" where
  "two_precisions =
     snd (bindE (HllSet_init core 4 default_tau default_rho default_seed) (\<lambda>a.
          HllSet_init core 5 default_tau default_rho default_seed) no_objects)"

text \<open>
  Two sketches of precision 4 given by their registers: the first has flags 0 and 1 in
  register 0 and flag 0 in register 1, the second flag 0 in register 0.
\<close>

definition sketch_A :: sketch where
  "sketch_A = \<lparr>sk_P = 4, counts = [3, 1, 0, 0, 0, 0, 0, 0, 0, 0, 0, 0, 0, 0, 0, 0]\<rparr>"

definition sketch_B :: sketch where
  "sketch_B = \<lparr>sk_P = 4, counts = [1, 0, 0, 0, 0, 0, 0, 0, 0, 0, 0, 0, 0, 0, 0, 0]\<rparr>"

definition sketch_A_minus_B :: sketch where
  "sketch_A_minus_B = \<lparr>sk_P = 4, counts = [2, 1, 0, 0, 0, 0, 0, 0, 0, 0, 0, 0, 0, 0, 0, 0]\<rparr>"

definition sketch_B_minus_A :: sketch where
  "sketch_B_minus_A = \<lparr>sk_P = 4, counts = [0, 0, 0, 0, 0, 0, 0, 0, 0, 0, 0, 0, 0, 0, 0, 0]\<rparr>"

text \<open>
  A store with two \<^verbatim>\<open>HllSet\<close> objects of precision 4 on these two Julia sketches, with
  \<open>tau = 0.9\<close>, \<open>rho = 0.1\<close>, \<open>seed = 42\<close> and \<open>tau = 0.5\<close>, \<open>rho = 0.3\<close>, \<open>seed = 7\<close>.
\<close>

definition two_sketches :: "sketch state" where
  "two_sketches =
     \<lparr>objs =
        [\<lparr>self_P = 4, self_tau = 9 / 10, self_rho = 1 / 10, self_seed = 42, self_hll = 0\<rparr>,
         \<lparr>self_P = 4, self_tau = 1 / 2, self_rho = 3 / 10, self_seed = 7, self_hll = 1\<rparr>],
      jl = [sketch_A, sketch_B]\<rparr>"

text \<open>A Redis hash with two fields, the first as bytes, and what inserting it gives.\<close>

definition redis_hash :: "(pyval \<times> pyval) list" where
  "redis_hash = [(PyBytes ''k1'', PyBytes ''v1''), (PyStr ''k2'', PyInt 7)]"

definition redis_sketch :: sketch where
  "redis_sketch =
     hash_insert (hash_insert (hash_insert (hash_insert (core_new 4) ''k1'') ''v1'') ''k2'')
       (int_bytes 7)"

text \<open>A Redis hash whose only field name is the byte \<^verbatim>\<open>0xFF\<close>, which is not UTF-8.\<close>

definition bad_hash :: "(pyval \<times> pyval) list" where
  "bad_hash = [(PyBytes [CHR 0xFF], PyBytes ''v1'')]"

text \<open>
  An example runtime that keeps, in place of a sketch, the list of the elements it was
  given, in order. Run on it, the wrapper shows which values it hands to \<^verbatim>\<open>add!\<close>.
\<close>

definition recorder :: "pyval list julia" where
  "recorder =
     \<lparr>jl_HllSet = (\<lambda>p. Inr []),
      jl_add = (\<lambda>h x. Inr (h @ [x])),
      jl_count = (\<lambda>h. real (length (remdups h))),
      jl_union = (\<lambda>a b. Inr (a @ b)),
      jl_intersect = (\<lambda>a b. Inr (filter (\<lambda>x. x \<in> set b) a)),
      jl_diff = (\<lambda>a b. Inr (filter (\<lambda>x. x \<notin> set b) a, filter (\<lambda>x. x \<in> set b) a,
                              filter (\<lambda>x. x \<notin> set a) b)),
      jl_set_comp = (\<lambda>a b. Inr (filter (\<lambda>x. x \<notin> set b) a)),
      jl_isequal = (\<lambda>a b. Inr (set a = set b))\<rparr>"

section \<open>How the wrapper functions run\<close>

lemmas py_defs = returnE_def raiseE_def bindE_def liftE_def getattr_def setattr_def jl_alloc_def

lemma HllSet_init_eq:
  "HllSet_init J p t r sd s =
     (case jl_HllSet J p of
        Inl e \<Rightarrow> (Inl e, s)
      | Inr h \<Rightarrow>
          (Inr (length (objs s)),
           s\<lparr>jl := jl s @ [h],
             objs := objs s @
               [\<lparr>self_P = p, self_tau = t, self_rho = r, self_seed = sd,
                 self_hll = length (jl s)\<rparr>]\<rparr>))"
  by (simp add: HllSet_init_def Main_HllSet_def py_defs split: sum.splits)

lemma from_julia_eq:
  "from_julia J j p t r sd s =
     (case jl_HllSet J p of
        Inl e \<Rightarrow> (Inl e, s)
      | Inr h \<Rightarrow>
          (Inr (length (objs s)),
           s\<lparr>jl := jl s @ [h],
             objs := objs s @
               [\<lparr>self_P = p, self_tau = t, self_rho = r, self_seed = sd, self_hll = j\<rparr>]\<rparr>))"
  by (simp add: from_julia_def HllSet_init_eq py_defs split: sum.splits)

lemma wrap_result_eq:
  "wrap_result J self j s =
     (case jl_HllSet J (self_P (objs s ! self)) of
        Inl e \<Rightarrow> (Inl e, s)
      | Inr h \<Rightarrow>
          (Inr (length (objs s)),
           s\<lparr>jl := jl s @ [h], objs := objs s @ [wrapper (self_P (objs s ! self)) j]\<rparr>))"
  by (simp add: wrap_result_def from_julia_eq wrapper_def getattr_def bindE_def
      split: sum.splits)

lemma union_hll_eq:
  assumes "valid s self" "valid s other"
  shows "union_hll J self other s =
     (case jl_union J (sketch_of s self) (sketch_of s other) of
        Inl e \<Rightarrow> (Inl e, s)
      | Inr u \<Rightarrow>
          (case jl_HllSet J (self_P (objs s ! self)) of
             Inl e \<Rightarrow> (Inl e, s\<lparr>jl := jl s @ [u]\<rparr>)
           | Inr h \<Rightarrow>
               (Inr (length (objs s)),
                s\<lparr>jl := jl s @ [u, h],
                  objs := objs s @
                    [(wrapper (self_P (objs s ! self)) (length (jl s)))
                       \<lparr>self_tau := min (self_tau (objs s ! self)) (self_tau (objs s ! other)),
                        self_rho := max (self_rho (objs s ! self)) (self_rho (objs s ! other))\<rparr>]\<rparr>)))"
  using assms
  by (simp add: union_hll_def wrap_result_eq combined_tau_def combined_rho_def Main_union_def
      sketch_of_def valid_def py_defs nth_append wrapper_def split: sum.splits)

lemma intersection_eq:
  assumes "valid s self" "valid s other"
  shows "intersection J self other s =
     (case jl_intersect J (sketch_of s self) (sketch_of s other) of
        Inl e \<Rightarrow> (Inl e, s)
      | Inr u \<Rightarrow>
          (case jl_HllSet J (self_P (objs s ! self)) of
             Inl e \<Rightarrow> (Inl e, s\<lparr>jl := jl s @ [u]\<rparr>)
           | Inr h \<Rightarrow>
               (Inr (length (objs s)),
                s\<lparr>jl := jl s @ [u, h],
                  objs := objs s @
                    [(wrapper (self_P (objs s ! self)) (length (jl s)))
                       \<lparr>self_tau := min (self_tau (objs s ! self)) (self_tau (objs s ! other)),
                        self_rho := max (self_rho (objs s ! self)) (self_rho (objs s ! other))\<rparr>]\<rparr>)))"
  using assms
  by (simp add: intersection_def wrap_result_eq combined_tau_def combined_rho_def
      Main_intersect_def sketch_of_def valid_def py_defs nth_append wrapper_def
      split: sum.splits)

lemma difference_eq:
  assumes "valid s self" "valid s other"
  shows "difference J self other s =
     (case jl_diff J (sketch_of s self) (sketch_of s other) of
        Inl e \<Rightarrow> (Inl e, s)
      | Inr (d, r, n) \<Rightarrow>
          (case jl_HllSet J (self_P (objs s ! self)) of
             Inl e \<Rightarrow> (Inl e, s\<lparr>jl := jl s @ [d, r, n]\<rparr>)
           | Inr h \<Rightarrow>
               (Inr (length (objs s), length (objs s) + 1, length (objs s) + 2),
                s\<lparr>jl := jl s @ [d, r, n, h, h, h],
                  objs := objs s @
                    map (\<lambda>j. (wrapper (self_P (objs s ! self)) j)
                       \<lparr>self_tau := min (self_tau (objs s ! self)) (self_tau (objs s ! other)),
                        self_rho := max (self_rho (objs s ! self)) (self_rho (objs s ! other))\<rparr>)
                      [length (jl s), length (jl s) + 1, length (jl s) + 2]\<rparr>)))"
  using assms
  by (simp add: difference_def wrap_result_eq combined_tau_def combined_rho_def Main_diff_def
      sketch_of_def valid_def py_defs nth_append list_update_append wrapper_def
      split: sum.splits prod.splits)


lemma metrics_eq:
  assumes "valid s self" "valid s other"
  shows "calculate_bss_metrics J self other s =
     (if jl_count J (sketch_of s other) = 0 then (Inr (BSSMetrics 0 0), s)
      else case jl_intersect J (sketch_of s self) (sketch_of s other) of
        Inl e \<Rightarrow> (Inl e, s)
      | Inr i \<Rightarrow>
          (case jl_diff J (sketch_of s self) (sketch_of s other) of
             Inl e \<Rightarrow> (Inl e, s\<lparr>jl := jl s @ [i]\<rparr>)
           | Inr (d, r, n) \<Rightarrow>
               (Inr (BSSMetrics (jl_count J i / jl_count J (sketch_of s other))
                                (jl_count J d / jl_count J (sketch_of s other))),
                s\<lparr>jl := jl s @ [i, d, r, n]\<rparr>)))"
  using assms
  by (simp add: calculate_bss_metrics_def count_def truediv_def Main_count_def
      Main_intersect_def Main_diff_def sketch_of_def valid_def py_defs nth_append
      split: sum.splits prod.splits)

lemma complement_eq:
  assumes "valid s self" "valid s other"
  shows "complement J self other s =
     (case jl_set_comp J (sketch_of s self) (sketch_of s other) of
        Inl e \<Rightarrow> (Inl e, s)
      | Inr c \<Rightarrow>
          (case jl_HllSet J (self_P (objs s ! self)) of
             Inl e \<Rightarrow> (Inl e, s\<lparr>jl := jl s @ [c]\<rparr>)
           | Inr h \<Rightarrow>
               (if jl_count J (sketch_of s other) = 0
                then (Inr (length (objs s)),
                      s\<lparr>jl := jl s @ [c, h],
                        objs := objs s @
                          [(wrapper (self_P (objs s ! self)) (length (jl s)))
                             \<lparr>self_tau := 0, self_rho := 0\<rparr>]\<rparr>)
                else case jl_intersect J (sketch_of s self) (sketch_of s other) of
                  Inl e \<Rightarrow>
                    (Inl e,
                     s\<lparr>jl := jl s @ [c, h],
                       objs := objs s @ [wrapper (self_P (objs s ! self)) (length (jl s))]\<rparr>)
                | Inr i \<Rightarrow>
                    (case jl_diff J (sketch_of s self) (sketch_of s other) of
                       Inl e \<Rightarrow>
                         (Inl e,
                          s\<lparr>jl := jl s @ [c, h, i],
                            objs := objs s @
                              [wrapper (self_P (objs s ! self)) (length (jl s))]\<rparr>)
                     | Inr (d, r, n) \<Rightarrow>
                         (Inr (length (objs s)),
                          s\<lparr>jl := jl s @ [c, h, i, d, r, n],
                            objs := objs s @
                              [(wrapper (self_P (objs s ! self)) (length (jl s)))
                                 \<lparr>self_tau := jl_count J i / jl_count J (sketch_of s other),
                                  self_rho := jl_count J d / jl_count J (sketch_of s other)\<rparr>]\<rparr>)))))"
  using assms
  by (simp add: complement_def wrap_result_eq Main_set_comp_def calculate_bss_metrics_def
      count_def truediv_def Main_count_def Main_intersect_def Main_diff_def
      sketch_of_def valid_def py_defs nth_append list_update_append wrapper_def
      split: sum.splits prod.splits)

lemma eq_hll_eq:
  "eq_hll J self other s =
     (case other of
        PyHllSet r \<Rightarrow> (jl_isequal J (sketch_of s self) (sketch_of s r), s)
      | _ \<Rightarrow> (Inr False, s))"
  by (cases other) (simp_all add: eq_hll_def Main_isequal_def sketch_of_def py_defs)

lemma add_eq:
  "add J self x s =
     (case jl_add J (sketch_of s self) x of
        Inl e \<Rightarrow> (Inl e, s)
      | Inr h \<Rightarrow> (Inr (), s\<lparr>jl := (jl s)[self_hll (objs s ! self) := h]\<rparr>))"
  by (simp add: add_def Main_add_def sketch_of_def py_defs)

lemma add_items_eq_add_elements:
  "add_items J hll items = add_elements J hll (elements_of items)"
  by (induction items rule: elements_of.induct) simp_all

lemma decode_if_bytes_decodable: "decodable x \<Longrightarrow> decode_if_bytes x = Inr (decoded x)"
  by (cases x) (simp_all add: decode_if_bytes_def decode_def)

lemma decode_if_bytes_malformed:
  "\<not> utf8_wellformed b \<Longrightarrow> decode_if_bytes (PyBytes b) = Inl UnicodeDecodeError"
  by (simp add: decode_if_bytes_def decode_def)

lemma add_elements_append:
  "add_elements J hll (xs @ ys) s =
     bindE (add_elements J hll xs) (\<lambda>_. add_elements J hll ys) s"
  by (induction xs arbitrary: s)
    (simp_all add: bindE_def returnE_def liftE_def split: sum.splits prod.splits)

lemma add_elements_run:
  assumes "self_hll (objs s ! hll) < length (jl s)"
    and "list_all decodable xs"
    and "insert_each J (sketch_of s hll) (map decoded xs) = Inr h"
  shows "add_elements J hll xs s = (Inr (), s\<lparr>jl := (jl s)[self_hll (objs s ! hll) := h]\<rparr>)"
  using assms
proof (induction xs arbitrary: s)
  case Nil
  then show ?case
    by (auto simp: returnE_def sketch_of_def)
next
  case (Cons x xs)
  from Cons.prems(2) have x: "decode_if_bytes x = Inr (decoded x)" and xs: "list_all decodable xs"
    by (simp_all add: decode_if_bytes_decodable)
  from Cons.prems(3) obtain h1 where
    h1: "jl_add J (sketch_of s hll) (decoded x) = Inr h1" and
    rest: "insert_each J h1 (map decoded xs) = Inr h"
    by (auto split: sum.splits)
  let ?s1 = "s\<lparr>jl := (jl s)[self_hll (objs s ! hll) := h1]\<rparr>"
  have "add_elements J hll xs ?s1 =
          (Inr (), ?s1\<lparr>jl := (jl ?s1)[self_hll (objs ?s1 ! hll) := h]\<rparr>)"
    using Cons.prems(1) xs rest by (intro Cons.IH) (simp_all add: sketch_of_def)
  then show ?case
    using x h1 by (simp add: add_eq bindE_def liftE_def)
qed

text \<open>The run of \<^verbatim>\<open>from_dict\<close> up to the loop, and the loop on the new sketch.\<close>

lemma from_dict_eq:
  assumes "redis_data \<noteq> []"
  shows "from_dict J redis_data p t r sd s =
     (case jl_HllSet J p of
        Inl e \<Rightarrow> (Inl e, s)
      | Inr h0 \<Rightarrow>
          (case add_elements J (length (objs s)) (elements_of redis_data) (built s p t r sd h0) of
             (Inl e, s') \<Rightarrow> (Inl e, s')
           | (Inr u, s') \<Rightarrow> (Inr (length (objs s)), s')))"
  using assms
  by (simp add: from_dict_def add_items_eq_add_elements HllSet_init_eq bindE_def returnE_def
      built_def split: sum.splits prod.splits)

lemma add_elements_built:
  assumes "list_all decodable xs"
    and "insert_each J h0 (map decoded xs) = Inr h"
  shows "add_elements J (length (objs s)) xs (built s p t r sd h0) =
           (Inr (), built s p t r sd h)"
proof -
  have "add_elements J (length (objs s)) xs (built s p t r sd h0) =
          (Inr (), (built s p t r sd h0)
             \<lparr>jl := (jl (built s p t r sd h0))
                [self_hll (objs (built s p t r sd h0) ! length (objs s)) := h]\<rparr>)"
    using assms by (intro add_elements_run) (simp_all add: built_def sketch_of_def)
  then show ?thesis
    by (simp add: built_def)
qed

lemma length_elements_of: "length (elements_of items) = 2 * length items"
  by (induction items rule: elements_of.induct) simp_all

subsection \<open>The example stores\<close>

lemma highest_flag_0: "highest_flag n 0 = 0"
  by (induction n) simp_all

lemma max_rank_0: "max_rank 0 = 0"
  by (simp add: max_rank_def highest_flag_0)

lemma max_rank_1: "max_rank 1 = 0"
  by code_simp

lemma max_rank_2: "max_rank 2 = 1"
  by code_simp

lemmas estimate_defs = estimate_def raw_estimate_def empty_registers_def alpha_def
  max_rank_0 max_rank_1 max_rank_2

lemma alpha_le: "alpha m \<le> 1"
proof -
  have "(7213 / 10000) / (1 + x) \<le> 1" if "0 \<le> x" for x :: real
    using that by (simp add: field_simps)
  from this [of "(1079 / 1000) / real m"] show ?thesis
    by (simp add: alpha_def)
qed


lemma raw_estimate_core_new: "raw_estimate (core_new p) = alpha (2 ^ p) * 2 ^ p"
  by (simp add: raw_estimate_def core_new_def sum_list_replicate max_rank_0 power2_eq_square)

lemma estimate_core_new: "estimate (core_new p) = 0"
proof -
  have len: "length (counts (core_new p)) = 2 ^ p"
    by (simp add: core_new_def)
  have emp: "empty_registers (core_new p) = 2 ^ p"
    by (simp add: empty_registers_def core_new_def)
  have "alpha (2 ^ p) * 2 ^ p \<le> 1 * (2 ^ p :: real)"
    using alpha_le [of "2 ^ p"] by (intro mult_right_mono) simp_all
  moreover have "(2 ^ p :: real) \<le> (5 / 2) * 2 ^ p"
    by simp
  ultimately have "raw_estimate (core_new p) \<le> (5 / 2) * 2 ^ p"
    unfolding raw_estimate_core_new by linarith
  then show ?thesis
    by (simp add: estimate_def len emp)
qed

lemma estimate_B: "estimate sketch_B = 16 * ln (16 / 15)"
  by (simp add: sketch_B_def estimate_defs)

lemma estimate_A_minus_B: "estimate sketch_A_minus_B = 16 * ln (8 / 7)"
  by (simp add: sketch_A_minus_B_def estimate_defs)

lemma intersection_A_B: "core_intersection sketch_A sketch_B = Inr sketch_B"
  by (simp add: core_intersection_def same_P_def registerwise_def sketch_A_def sketch_B_def)

lemma difference_A_B:
  "core_difference sketch_A sketch_B = Inr (sketch_A_minus_B, sketch_B, sketch_B_minus_A)"
  by (simp add: core_difference_def same_P_def registerwise_def sketch_A_def sketch_B_def
      sketch_A_minus_B_def sketch_B_minus_A_def)

lemma core_simps:
  "jl_HllSet core = core_create" "jl_add core = core_add" "jl_count core = estimate"
  "jl_union core = core_union" "jl_intersect core = core_intersection"
  "jl_diff core = core_difference" "jl_set_comp core = core_complement"
  "jl_isequal core = core_equals"
  by (simp_all add: core_def)

lemma two_empty_eq:
  "two_empty = \<lparr>objs = [wrapper 10 0, wrapper 10 1], jl = [core_new 10, core_new 10]\<rparr>"
  by (simp add: two_empty_def no_objects_def bindE_def HllSet_init_eq core_simps
      core_create_def P_min_def P_max_def wrapper_def)

lemma relabelled_eq:
  "relabelled =
     \<lparr>objs = [wrapper 4 0, wrapper 5 1], jl = [core_new 4, core_new 4, core_new 5]\<rparr>"
  by (simp add: relabelled_def no_objects_def py_defs Main_HllSet_def HllSet_init_eq from_julia_eq core_simps
      core_create_def P_min_def P_max_def wrapper_def)

lemma two_sketches_simps:
  "valid two_sketches 0" "valid two_sketches 1"
  "sketch_of two_sketches 0 = sketch_A" "sketch_of two_sketches 1 = sketch_B"
  "valid two_sketches (Suc 0)" "sketch_of two_sketches (Suc 0) = sketch_B"
  by (simp_all add: two_sketches_def valid_def sketch_of_def)

lemma two_empty_simps:
  "valid two_empty 0" "valid two_empty 1" "valid two_empty (Suc 0)"
  "sketch_of two_empty 0 = core_new 10" "sketch_of two_empty 1 = core_new 10"
  "sketch_of two_empty (Suc 0) = core_new 10"
  by (simp_all add: two_empty_eq valid_def sketch_of_def wrapper_def)

lemma core_new_P: "sk_P (core_new p) = p"
  by (simp add: core_new_def)

lemma complement_A_B: "core_complement sketch_A sketch_B = Inr sketch_A_minus_B"
  by (simp add: core_complement_def same_P_def registerwise_def sketch_A_def sketch_B_def
      sketch_A_minus_B_def)

lemma union_A_B: "core_union sketch_A sketch_B = Inr sketch_A"
  by (simp add: core_union_def same_P_def registerwise_def sketch_A_def sketch_B_def)

lemma two_empty_objs:
  "objs two_empty ! 0 = wrapper 10 0" "objs two_empty ! Suc 0 = wrapper 10 1"
  "length (objs two_empty) = 2" "length (jl two_empty) = 2"
  by (simp_all add: two_empty_eq)

lemma core_create_10: "core_create 10 = Inr (core_new 10)"
  by (simp add: core_create_def P_min_def P_max_def)

lemma complement_two_empty:
  "complement core 0 1 two_empty =
     (Inr 2,
      two_empty\<lparr>jl := jl two_empty @
                   [registerwise (\<lambda>x y. x AND NOT y) (core_new 10) (core_new 10), core_new 10],
                objs := objs two_empty @ [(wrapper 10 2)\<lparr>self_tau := 0, self_rho := 0\<rparr>]\<rparr>)"
  by (simp add: complement_eq two_empty_simps two_empty_objs core_simps core_complement_def
      same_P_def core_new_P core_create_10 estimate_core_new wrapper_def)

lemma two_sketches_objs:
  "objs two_sketches ! 0 =
     \<lparr>self_P = 4, self_tau = 9 / 10, self_rho = 1 / 10, self_seed = 42, self_hll = 0\<rparr>"
  "objs two_sketches ! Suc 0 =
     \<lparr>self_P = 4, self_tau = 1 / 2, self_rho = 3 / 10, self_seed = 7, self_hll = 1\<rparr>"
  "length (objs two_sketches) = 2" "length (jl two_sketches) = 2"
  by (simp_all add: two_sketches_def)

lemma core_create_4: "core_create 4 = Inr (core_new 4)"
  by (simp add: core_create_def P_min_def P_max_def)

lemma relabelled_simps:
  "valid relabelled 0" "valid relabelled 1" "valid relabelled (Suc 0)"
  "sketch_of relabelled 0 = core_new 4" "sketch_of relabelled 1 = core_new 4"
  "sketch_of relabelled (Suc 0) = core_new 4"
  "objs relabelled ! 0 = wrapper 4 0" "objs relabelled ! Suc 0 = wrapper 5 1"
  "length (objs relabelled) = 2" "length (jl relabelled) = 3"
  by (simp_all add: relabelled_eq valid_def sketch_of_def wrapper_def)

lemma union_relabelled:
  "union_hll core 0 1 relabelled =
     (Inr 2,
      relabelled\<lparr>jl := jl relabelled @ [registerwise (OR) (core_new 4) (core_new 4), core_new 4],
                 objs := objs relabelled @
                   [(wrapper 4 3)\<lparr>self_tau := default_tau, self_rho := default_rho\<rparr>]\<rparr>)"
  by (simp add: union_hll_eq relabelled_simps core_simps core_union_def same_P_def core_new_P
      core_create_4 wrapper_def)

lemma two_precisions_eq:
  "two_precisions = \<lparr>objs = [wrapper 4 0, wrapper 5 1], jl = [core_new 4, core_new 5]\<rparr>"
  by (simp add: two_precisions_def no_objects_def bindE_def HllSet_init_eq core_simps
      core_create_def P_min_def P_max_def wrapper_def)

lemma two_precisions_simps:
  "valid two_precisions 0" "valid two_precisions 1" "valid two_precisions (Suc 0)"
  "P_agrees two_precisions 0" "P_agrees two_precisions 1" "P_agrees two_precisions (Suc 0)"
  "self_P (objs two_precisions ! 0) = 4" "self_P (objs two_precisions ! 1) = 5"
  "self_P (objs two_precisions ! Suc 0) = 5"
  by (simp_all add: two_precisions_eq valid_def sketch_of_def wrapper_def P_agrees_def
      core_new_P)

lemma redis_hash_elements:
  "elements_of redis_hash = [PyBytes ''k1'', PyBytes ''v1'', PyStr ''k2'', PyInt 7]"
  "list_all decodable (elements_of redis_hash)"
  "map decoded (elements_of redis_hash) = [PyStr ''k1'', PyStr ''v1'', PyStr ''k2'', PyInt 7]"
  by (simp_all add: redis_hash_def between_def)

lemma insert_redis_hash:
  "insert_each core (core_new 4) (map decoded (elements_of redis_hash)) = Inr redis_sketch"
  by (simp add: redis_hash_elements redis_sketch_def core_simps core_add_def)

lemma record_redis_hash:
  "insert_each recorder [] (map decoded (elements_of redis_hash)) =
     Inr [PyStr ''k1'', PyStr ''v1'', PyStr ''k2'', PyInt 7]"
  by (simp add: redis_hash_elements recorder_def)

lemma bad_hash_elements:
  "elements_of bad_hash = [] @ PyBytes [CHR 0xFF] # [PyBytes ''v1'']"
  "\<not> utf8_wellformed [CHR 0xFF]"
  by (simp_all add: bad_hash_def between_def)

lemma union_two_sketches:
  "union_hll core 0 1 two_sketches =
     (Inr 2,
      two_sketches\<lparr>jl := [sketch_A, sketch_B, sketch_A, core_new 4],
                   objs := objs two_sketches @
                     [\<lparr>self_P = 4, self_tau = 1 / 2, self_rho = 3 / 10,
                       self_seed = default_seed, self_hll = 2\<rparr>]\<rparr>)"
  by (simp add: union_hll_eq two_sketches_simps two_sketches_objs core_simps core_create_4
      union_A_B wrapper_def)
    (simp add: two_sketches_def)

lemma intersection_two_sketches:
  "intersection core 0 1 two_sketches =
     (Inr 2,
      two_sketches\<lparr>jl := [sketch_A, sketch_B, sketch_B, core_new 4],
                   objs := objs two_sketches @
                     [\<lparr>self_P = 4, self_tau = 1 / 2, self_rho = 3 / 10,
                       self_seed = default_seed, self_hll = 2\<rparr>]\<rparr>)"
  by (simp add: intersection_eq two_sketches_simps two_sketches_objs core_simps core_create_4
      intersection_A_B wrapper_def)
    (simp add: two_sketches_def)

lemma difference_two_sketches:
  "difference core 0 1 two_sketches =
     (Inr (2, 3, 4),
      two_sketches\<lparr>jl := [sketch_A, sketch_B, sketch_A_minus_B, sketch_B, sketch_B_minus_A,
                          core_new 4, core_new 4, core_new 4],
                   objs := objs two_sketches @
                     map (\<lambda>j. \<lparr>self_P = 4, self_tau = 1 / 2, self_rho = 3 / 10,
                                self_seed = default_seed, self_hll = j\<rparr>) [2, 3, 4]\<rparr>)"
  by (simp add: difference_eq two_sketches_simps two_sketches_objs core_simps core_create_4
      difference_A_B wrapper_def)
    (simp add: two_sketches_def)

lemma complement_two_sketches:
  "complement core 0 1 two_sketches =
     (Inr 2,
      two_sketches\<lparr>jl := [sketch_A, sketch_B, sketch_A_minus_B, core_new 4, sketch_B,
                          sketch_A_minus_B, sketch_B, sketch_B_minus_A],
                   objs := objs two_sketches @
                     [\<lparr>self_P = 4, self_tau = 1, self_rho = ln (8 / 7) / ln (16 / 15),
                       self_seed = default_seed, self_hll = 2\<rparr>]\<rparr>)"
  by (simp add: complement_eq two_sketches_simps two_sketches_objs core_simps core_create_4
      complement_A_B intersection_A_B difference_A_B estimate_B estimate_A_minus_B wrapper_def)
    (simp add: two_sketches_def)

section \<open>The BSS metrics\<close>

text \<open>
  C1. For sketches A and B with \<open>estimate(B) \<noteq> 0\<close>, the BSS metrics calculation
  (\<^verbatim>\<open>_calculate_bss_metrics\<close> and \<^verbatim>\<open>calculate_bss_to\<close>) returns \<open>tau\<close> equal to the estimate
  of the intersection of A and B divided by the estimate of B, and \<open>rho\<close> equal to the
  estimate of the \<^verbatim>\<open>deleted\<close> output of the difference of A and B divided by the
  estimate of B. Both are the plain quotients: nothing clamps them to the unit interval.
  The intersection \<open>i\<close> and the difference \<open>(d, r, n)\<close> are what Julia returns for the two
  sketches.
\<close>

theorem bss_metrics_ratios:
  assumes "valid s self" and "valid s other"
    and "jl_count J (sketch_of s other) \<noteq> 0"
    and "jl_intersect J (sketch_of s self) (sketch_of s other) = Inr i"
    and "jl_diff J (sketch_of s self) (sketch_of s other) = Inr (d, r, n)"
  shows "fst (calculate_bss_metrics J self other s) =
           Inr (BSSMetrics (jl_count J i / jl_count J (sketch_of s other))
                           (jl_count J d / jl_count J (sketch_of s other))) \<and>
         fst (calculate_bss_to J self other s) =
           Inr (BSSMetrics (jl_count J i / jl_count J (sketch_of s other))
                           (jl_count J d / jl_count J (sketch_of s other)))"
  using assms by (simp add: calculate_bss_to_def metrics_eq)

theorem bss_metrics_ratios_witness:
  "valid two_sketches 0 \<and> valid two_sketches 1 \<and>
   jl_count core (sketch_of two_sketches 1) \<noteq> 0 \<and>
   fst (calculate_bss_metrics core 0 1 two_sketches) =
     Inr (BSSMetrics 1 (ln (8 / 7) / ln (16 / 15))) \<and>
   fst (calculate_bss_to core 0 1 two_sketches) =
     Inr (BSSMetrics 1 (ln (8 / 7) / ln (16 / 15))) \<and>
   1 < ln (8 / 7) / ln (16 / 15 :: real)"
  using bss_metrics_ratios [of two_sketches 0 1 core sketch_B sketch_A_minus_B sketch_B
      sketch_B_minus_A]
  by (simp add: two_sketches_simps core_simps estimate_B estimate_A_minus_B intersection_A_B
      difference_A_B)

text \<open>
  C2. For sketches A and B with \<open>estimate(B) = 0\<close>, the BSS metrics calculation returns
  exactly \<open>(tau = 0.0, rho = 0.0)\<close> and raises nothing. The store is the one before the
  call: no intersection and no difference was computed, since each would have left a
  new Julia sketch behind. This holds for every runtime \<open>J\<close>, also one whose \<^verbatim>\<open>intersect\<close>
  and \<^verbatim>\<open>diff\<close> raise.
\<close>

theorem bss_metrics_zero_count:
  assumes "jl_count J (sketch_of s other) = 0"
  shows "calculate_bss_metrics J self other s = (Inr (BSSMetrics 0 0), s) \<and>
         calculate_bss_to J self other s = (Inr (BSSMetrics 0 0), s)"
  using assms
  by (simp add: calculate_bss_to_def calculate_bss_metrics_def count_def Main_count_def
      sketch_of_def py_defs)

theorem bss_metrics_zero_count_witness:
  "jl_count core (sketch_of two_empty 1) = 0 \<and>
   calculate_bss_metrics core 0 1 two_empty = (Inr (BSSMetrics 0 0), two_empty) \<and>
   calculate_bss_to core 0 1 two_empty = (Inr (BSSMetrics 0 0), two_empty)"
  using bss_metrics_zero_count [of core two_empty 1 0]
  by (simp add: two_empty_eq sketch_of_def wrapper_def core_simps estimate_core_new)

section \<open>Passenger metadata of the results\<close>

text \<open>
  C3, as stated, fails for \<^verbatim>\<open>complement\<close>. With \<^verbatim>\<open>a = HllSet(); b = HllSet()\<close>, both
  carrying the default \<open>tau = 0.7\<close> and \<open>rho = 0.21\<close>, the call \<^verbatim>\<open>a.complement(b)\<close> returns a
  new sketch with \<open>tau = 0\<close> and \<open>rho = 0\<close>, the BSS metrics of an empty \<^verbatim>\<open>b\<close>, where the
  passenger rule would give \<open>0.7\<close> and \<open>0.21\<close>.
\<close>

theorem complement_not_min_max:
  "fst (complement core 0 1 two_empty) = Inr 2 \<and>
   self_tau (objs (snd (complement core 0 1 two_empty)) ! 2) = 0 \<and>
   self_rho (objs (snd (complement core 0 1 two_empty)) ! 2) = 0 \<and>
   min (self_tau (objs two_empty ! 0)) (self_tau (objs two_empty ! 1)) = 7 / 10 \<and>
   max (self_rho (objs two_empty ! 0)) (self_rho (objs two_empty ! 1)) = 21 / 100 \<and>
   \<not> carries_min_max two_empty 0 1 (snd (complement core 0 1 two_empty)) 2"
  unfolding complement_two_empty
  by (simp add: two_empty_eq wrapper_def default_tau_def default_rho_def carries_min_max_def)

text \<open>
  C3, amended. For sketches A and B, the result of \<^verbatim>\<open>union\<close>, the result of
  \<^verbatim>\<open>intersection\<close> and each of the three outputs of \<^verbatim>\<open>difference\<close> carries \<open>tau\<close> equal to
  \<open>min(A.tau, B.tau)\<close> and \<open>rho\<close> equal to \<open>max(A.rho, B.rho)\<close>. Each operator returns
  whenever Julia returns the sketches \<open>x\<close>, \<open>y\<close>, \<open>z\<close> it is asked for and \<^verbatim>\<open>Main.HllSet\<close>
  accepts \<^verbatim>\<open>A.P\<close>. (\<^verbatim>\<open>complement\<close> is not in the list: its result carries the BSS
  metrics, see C4.)
\<close>

theorem results_carry_min_max:
  assumes "valid s a" and "valid s b"
    and "jl_HllSet J (self_P (objs s ! a)) = Inr h"
  shows
    "(jl_union J (sketch_of s a) (sketch_of s b) = Inr x \<longrightarrow>
        (case union_hll J a b s of
           (Inr u, s') \<Rightarrow> carries_min_max s a b s' u
         | (Inl e, s') \<Rightarrow> False)) \<and>
     (jl_intersect J (sketch_of s a) (sketch_of s b) = Inr y \<longrightarrow>
        (case intersection J a b s of
           (Inr u, s') \<Rightarrow> carries_min_max s a b s' u
         | (Inl e, s') \<Rightarrow> False)) \<and>
     (jl_diff J (sketch_of s a) (sketch_of s b) = Inr z \<longrightarrow>
        (case difference J a b s of
           (Inr (deleted, retained, new), s') \<Rightarrow>
             carries_min_max s a b s' deleted \<and>
             carries_min_max s a b s' retained \<and>
             carries_min_max s a b s' new
         | (Inl e, s') \<Rightarrow> False))"
  using assms
  by (cases z)
    (simp add: union_hll_eq intersection_eq difference_eq carries_min_max_def wrapper_def
      nth_append)

theorem results_carry_min_max_witness:
  "valid two_sketches 0 \<and> valid two_sketches 1 \<and>
   jl_HllSet core (self_P (objs two_sketches ! 0)) = Inr (core_new 4) \<and>
   jl_union core (sketch_of two_sketches 0) (sketch_of two_sketches 1) = Inr sketch_A \<and>
   jl_intersect core (sketch_of two_sketches 0) (sketch_of two_sketches 1) = Inr sketch_B \<and>
   jl_diff core (sketch_of two_sketches 0) (sketch_of two_sketches 1) =
     Inr (sketch_A_minus_B, sketch_B, sketch_B_minus_A) \<and>
   (case union_hll core 0 1 two_sketches of
      (Inr u, s') \<Rightarrow> self_tau (objs s' ! u) = 1 / 2 \<and> self_rho (objs s' ! u) = 3 / 10
    | (Inl e, s') \<Rightarrow> False) \<and>
   (case intersection core 0 1 two_sketches of
      (Inr u, s') \<Rightarrow> self_tau (objs s' ! u) = 1 / 2 \<and> self_rho (objs s' ! u) = 3 / 10
    | (Inl e, s') \<Rightarrow> False) \<and>
   (case difference core 0 1 two_sketches of
      (Inr (deleted, retained, new), s') \<Rightarrow>
        self_tau (objs s' ! deleted) = 1 / 2 \<and> self_rho (objs s' ! deleted) = 3 / 10 \<and>
        self_tau (objs s' ! retained) = 1 / 2 \<and> self_rho (objs s' ! retained) = 3 / 10 \<and>
        self_tau (objs s' ! new) = 1 / 2 \<and> self_rho (objs s' ! new) = 3 / 10
    | (Inl e, s') \<Rightarrow> False)"
  using results_carry_min_max [of two_sketches 0 1 core "core_new 4" sketch_A sketch_B
      "(sketch_A_minus_B, sketch_B, sketch_B_minus_A)"]
  by (simp add: two_sketches_simps two_sketches_objs core_simps core_create_4 union_A_B
      intersection_A_B difference_A_B carries_min_max_def split: prod.splits sum.splits)



section \<open>Errors\<close>

text \<open>
  C5, as stated, fails. The wrapper never compares the \<^verbatim>\<open>P\<close> fields, and \<^verbatim>\<open>from_julia\<close>
  attaches whatever \<^verbatim>\<open>P\<close> it is given to a sketch. With \<^verbatim>\<open>a = HllSet(4)\<close> and
  \<^verbatim>\<open>b = HllSet.from_julia(Main.HllSet(4), P=5)\<close> the fields \<^verbatim>\<open>a.P = 4\<close> and \<^verbatim>\<open>b.P = 5\<close>
  differ, yet \<^verbatim>\<open>a.union(b)\<close> returns a new sketch: the two Julia sketches have the same
  precision.
\<close>

theorem union_of_relabelled_sketch_returns:
  "self_P (objs relabelled ! 0) = 4 \<and> self_P (objs relabelled ! 1) = 5 \<and>
   fst (union_hll core 0 1 relabelled) = Inr 2 \<and>
   fst (union_hll core 0 1 relabelled) \<noteq> Inl ConfigMismatchError"
  unfolding union_relabelled by (simp add: relabelled_simps wrapper_def)

text \<open>
  C5, amended. For sketches A and B whose \<^verbatim>\<open>P\<close> fields are the precisions of the sketches
  they wrap (as after \<^verbatim>\<open>HllSet(P)\<close>) and with \<open>A.P \<noteq> B.P\<close>, each of \<^verbatim>\<open>union\<close>,
  \<^verbatim>\<open>intersection\<close>, \<^verbatim>\<open>difference\<close>, \<^verbatim>\<open>complement\<close> and \<^verbatim>\<open>==\<close> fails with a
  ConfigMismatchError, raised by the core, and leaves the store, hence both operands, as
  it was.
\<close>

theorem mismatched_precision_fails:
  assumes "valid s a" and "valid s b"
    and "P_agrees s a" and "P_agrees s b"
    and "self_P (objs s ! a) \<noteq> self_P (objs s ! b)"
  shows "union_hll core a b s = (Inl ConfigMismatchError, s) \<and>
         intersection core a b s = (Inl ConfigMismatchError, s) \<and>
         difference core a b s = (Inl ConfigMismatchError, s) \<and>
         complement core a b s = (Inl ConfigMismatchError, s) \<and>
         eq_hll core a (PyHllSet b) s = (Inl ConfigMismatchError, s)"
proof -
  from assms(3-5) have "sk_P (sketch_of s a) \<noteq> sk_P (sketch_of s b)"
    by (auto simp: P_agrees_def)
  with assms(1,2) show ?thesis
    by (simp add: union_hll_eq intersection_eq difference_eq complement_eq eq_hll_eq core_simps
        core_union_def core_intersection_def core_difference_def core_complement_def
        core_equals_def same_P_def)
qed

theorem mismatched_precision_fails_witness:
  "valid two_precisions 0 \<and> valid two_precisions 1 \<and>
   P_agrees two_precisions 0 \<and> P_agrees two_precisions 1 \<and>
   self_P (objs two_precisions ! 0) \<noteq> self_P (objs two_precisions ! 1) \<and>
   union_hll core 0 1 two_precisions = (Inl ConfigMismatchError, two_precisions) \<and>
   intersection core 0 1 two_precisions = (Inl ConfigMismatchError, two_precisions) \<and>
   difference core 0 1 two_precisions = (Inl ConfigMismatchError, two_precisions) \<and>
   complement core 0 1 two_precisions = (Inl ConfigMismatchError, two_precisions) \<and>
   eq_hll core 0 (PyHllSet 1) two_precisions = (Inl ConfigMismatchError, two_precisions)"
  using mismatched_precision_fails [of two_precisions 0 1]
  by (simp add: two_precisions_simps)

text \<open>
  C6. For a precision \<open>P\<close> outside the supported range \<open>[P_min, P_max] = [4, 18]\<close>,
  constructing a sketch, by \<^verbatim>\<open>HllSet(P, ...)\<close> or by \<^verbatim>\<open>from_julia(j, P, ...)\<close>, fails with
  a ConfigError raised by the core, and the store is the one before the call: no object,
  partial or not, was produced.
\<close>

theorem construction_out_of_range:
  assumes "p < P_min \<or> P_max < p"
  shows "HllSet_init core p t r sd s = (Inl ConfigError, s) \<and>
         from_julia core j p t r sd s = (Inl ConfigError, s)"
  using assms by (auto simp: HllSet_init_eq from_julia_eq core_simps core_create_def)

theorem construction_out_of_range_witness:
  "(3 < P_min \<or> P_max < 3) \<and>
   HllSet_init core 3 default_tau default_rho default_seed no_objects =
     (Inl ConfigError, no_objects) \<and>
   from_julia core 0 3 default_tau default_rho default_seed no_objects =
     (Inl ConfigError, no_objects)"
  using construction_out_of_range [of 3 default_tau default_rho default_seed no_objects 0]
  by (simp add: P_min_def)

section \<open>Equality\<close>

text \<open>
  C9. For a sketch A and a value \<open>x\<close> that is not an \<^verbatim>\<open>HllSet\<close> instance, \<^verbatim>\<open>A == x\<close> returns
  \<^verbatim>\<open>False\<close>: nothing is raised, and Julia is not asked to compare anything, whatever its
  \<^verbatim>\<open>isequal\<close> would do.
\<close>

theorem eq_with_non_sketch:
  assumes "\<not> isinstance_HllSet x"
  shows "eq_hll J a x s = (Inr False, s)"
  using assms by (cases x) (simp_all add: eq_hll_eq)

theorem eq_with_non_sketch_witness:
  "\<not> isinstance_HllSet (PyStr ''abc'') \<and>
   eq_hll core 0 (PyStr ''abc'') two_sketches = (Inr False, two_sketches) \<and>
   eq_hll core 0 PyNone two_sketches = (Inr False, two_sketches)"
  using eq_with_non_sketch [of "PyStr ''abc''" core 0 two_sketches]
    eq_with_non_sketch [of PyNone core 0 two_sketches]
  by simp

section \<open>Insertion\<close>

text \<open>
  C7. For a sketch S and a list of elements \<open>[e1, ..., en]\<close>, \<^verbatim>\<open>add_batch(S, [e1, ..., en])\<close>
  does what the calls \<^verbatim>\<open>add(S, e1)\<close>, ..., \<^verbatim>\<open>add(S, en)\<close> do one after the other: the same
  result and the same store, also when an insertion raises on the way.
\<close>

theorem add_batch_is_sequential_add:
  "add_batch J self es s = add_each J self es s"
proof (induction es arbitrary: s)
  case Nil
  show ?case by simp
next
  case (Cons e es)
  then show ?case
    by (simp add: add_def bindE_def getattr_def split: sum.splits prod.splits)
qed

theorem add_batch_is_sequential_add_witness:
  "add_batch core 0 [PyStr ''k1'', PyInt 7] two_sketches =
     add_each core 0 [PyStr ''k1'', PyInt 7] two_sketches \<and>
   add_each core 0 [PyStr ''k1'', PyInt 7] two_sketches =
     (Inr (),
      two_sketches\<lparr>jl := [hash_insert (hash_insert sketch_A ''k1'') (int_bytes 7), sketch_B]\<rparr>)"
  using add_batch_is_sequential_add [of core 0 "[PyStr ''k1'', PyInt 7]" two_sketches]
  by (simp add: add_eq bindE_def returnE_def two_sketches_simps two_sketches_objs core_simps
      core_add_def sketch_of_def two_sketches_def)

text \<open>
  C10, as stated, fails. A non-empty dictionary can hold \<^verbatim>\<open>bytes\<close> that are not UTF-8, as
  \<^verbatim>\<open>redis.hgetall\<close> may return: \<^verbatim>\<open>HllSet.from_dict({b'\xff': b'v1'})\<close> constructs a sketch
  and then raises \<^verbatim>\<open>UnicodeDecodeError\<close> at \<^verbatim>\<open>key.decode()\<close>. Nothing was inserted: the
  sketch is the empty one.
\<close>

theorem from_dict_malformed_bytes_raises:
  "bad_hash \<noteq> [] \<and>
   from_dict core bad_hash 10 default_tau default_rho default_seed no_objects =
     (Inl UnicodeDecodeError, \<lparr>objs = [wrapper 10 0], jl = [core_new 10]\<rparr>)"
  by (simp add: bad_hash_def from_dict_eq core_simps core_create_10 built_def no_objects_def
      wrapper_def decode_if_bytes_def decode_def between_def bindE_def liftE_def)

text \<open>
  C10, amended. For the empty dictionary \<^verbatim>\<open>from_dict\<close> raises \<^verbatim>\<open>ValueError\<close> and the store
  is untouched: no sketch was constructed. For a non-empty dictionary it constructs a new
  sketch and then goes through the elements, the key and then the value of every entry,
  in order: twice as many elements as entries. A \<^verbatim>\<open>bytes\<close> element is inserted as the
  string it decodes to, any other element as it is.
  \<^item> When every \<^verbatim>\<open>bytes\<close> element is well-formed UTF-8 and the insertions return, the
    result is the new object, on a new Julia sketch that holds exactly these insertions.
  \<^item> At the first \<^verbatim>\<open>bytes\<close> element \<open>b\<close> that is not well-formed UTF-8 it raises
    \<^verbatim>\<open>UnicodeDecodeError\<close>; the elements \<open>pre\<close> before it have been inserted, no later one.
  \<^item> An error \<open>e\<close> of the constructor is raised with the store untouched, and an error
    \<open>e'\<close> of the insertion of an element \<open>x\<close> is raised with the elements before it
    inserted.
\<close>

theorem from_dict_inserts_keys_and_values:
  "from_dict J [] p t r sd s = (Inl ValueError, s) \<and>
   length (map decoded (elements_of redis_data)) = 2 * length redis_data \<and>
   (redis_data \<noteq> [] \<longrightarrow> jl_HllSet J p = Inr h0 \<longrightarrow>
    list_all decodable (elements_of redis_data) \<longrightarrow>
    insert_each J h0 (map decoded (elements_of redis_data)) = Inr h \<longrightarrow>
      from_dict J redis_data p t r sd s = (Inr (length (objs s)), built s p t r sd h)) \<and>
   (jl_HllSet J p = Inr h0 \<longrightarrow>
    elements_of redis_data = pre @ PyBytes b # post \<longrightarrow>
    list_all decodable pre \<longrightarrow> \<not> utf8_wellformed b \<longrightarrow>
    insert_each J h0 (map decoded pre) = Inr h \<longrightarrow>
      from_dict J redis_data p t r sd s = (Inl UnicodeDecodeError, built s p t r sd h)) \<and>
   (redis_data \<noteq> [] \<longrightarrow> jl_HllSet J p = Inl e \<longrightarrow>
      from_dict J redis_data p t r sd s = (Inl e, s)) \<and>
   (jl_HllSet J p = Inr h0 \<longrightarrow>
    elements_of redis_data = pre @ x # post \<longrightarrow>
    list_all decodable pre \<longrightarrow> decodable x \<longrightarrow>
    insert_each J h0 (map decoded pre) = Inr h \<longrightarrow> jl_add J h (decoded x) = Inl e' \<longrightarrow>
      from_dict J redis_data p t r sd s = (Inl e', built s p t r sd h))"
proof (intro conjI impI)
  show "from_dict J [] p t r sd s = (Inl ValueError, s)"
    by (simp add: from_dict_def raiseE_def)
next
  show "length (map decoded (elements_of redis_data)) = 2 * length redis_data"
    by (simp add: length_elements_of)
next
  assume "redis_data \<noteq> []" and "jl_HllSet J p = Inr h0"
    and "list_all decodable (elements_of redis_data)"
    and "insert_each J h0 (map decoded (elements_of redis_data)) = Inr h"
  then show "from_dict J redis_data p t r sd s = (Inr (length (objs s)), built s p t r sd h)"
    by (simp add: from_dict_eq add_elements_built)
next
  assume h0: "jl_HllSet J p = Inr h0"
    and split: "elements_of redis_data = pre @ PyBytes b # post"
    and pre: "list_all decodable pre" and b: "\<not> utf8_wellformed b"
    and ins: "insert_each J h0 (map decoded pre) = Inr h"
  from split have nonempty: "redis_data \<noteq> []"
    by auto
  have "add_elements J (length (objs s)) (pre @ PyBytes b # post) (built s p t r sd h0) =
          (Inl UnicodeDecodeError, built s p t r sd h)"
    using b
    by (simp add: add_elements_append bindE_def add_elements_built [OF pre ins] liftE_def
        decode_if_bytes_malformed)
  then show "from_dict J redis_data p t r sd s = (Inl UnicodeDecodeError, built s p t r sd h)"
    by (simp add: from_dict_eq [OF nonempty] h0 split)
next
  assume "redis_data \<noteq> []" and "jl_HllSet J p = Inl e"
  then show "from_dict J redis_data p t r sd s = (Inl e, s)"
    by (simp add: from_dict_eq)
next
  assume h0: "jl_HllSet J p = Inr h0"
    and split: "elements_of redis_data = pre @ x # post"
    and pre: "list_all decodable pre" and x: "decodable x"
    and ins: "insert_each J h0 (map decoded pre) = Inr h"
    and fails: "jl_add J h (decoded x) = Inl e'"
  from split have nonempty: "redis_data \<noteq> []"
    by auto
  have "sketch_of (built s p t r sd h) (length (objs s)) = h"
    by (simp add: built_def sketch_of_def)
  then have "add_elements J (length (objs s)) (pre @ x # post) (built s p t r sd h0) =
          (Inl e', built s p t r sd h)"
    using fails
    by (simp add: add_elements_append bindE_def add_elements_built [OF pre ins] liftE_def
        decode_if_bytes_decodable [OF x] add_eq)
  then show "from_dict J redis_data p t r sd s = (Inl e', built s p t r sd h)"
    by (simp add: from_dict_eq [OF nonempty] h0 split)
qed

theorem from_dict_inserts_keys_and_values_witness:
  "redis_hash \<noteq> [] \<and> list_all decodable (elements_of redis_hash) \<and>
   map decoded (elements_of redis_hash) = [PyStr ''k1'', PyStr ''v1'', PyStr ''k2'', PyInt 7] \<and>
   from_dict recorder [] 4 default_tau default_rho default_seed \<lparr>objs = [], jl = []\<rparr> =
     (Inl ValueError, \<lparr>objs = [], jl = []\<rparr>) \<and>
   from_dict recorder redis_hash 4 default_tau default_rho default_seed
       \<lparr>objs = [], jl = []\<rparr> =
     (Inr 0,
      \<lparr>objs = [wrapper 4 0],
        jl = [[PyStr ''k1'', PyStr ''v1'', PyStr ''k2'', PyInt 7]]\<rparr>) \<and>
   from_dict core redis_hash 4 default_tau default_rho default_seed no_objects =
     (Inr 0, \<lparr>objs = [wrapper 4 0], jl = [redis_sketch]\<rparr>) \<and>
   elements_of bad_hash = [] @ PyBytes [CHR 0xFF] # [PyBytes ''v1''] \<and>
   \<not> utf8_wellformed [CHR 0xFF] \<and>
   from_dict recorder bad_hash 4 default_tau default_rho default_seed \<lparr>objs = [], jl = []\<rparr> =
     (Inl UnicodeDecodeError, \<lparr>objs = [wrapper 4 0], jl = [[]]\<rparr>) \<and>
   from_dict core redis_hash 3 default_tau default_rho default_seed no_objects =
     (Inl ConfigError, no_objects) \<and>
   from_dict core [(PyStr ''k1'', PyNone)] 4 default_tau default_rho default_seed no_objects =
     (Inl InputError, \<lparr>objs = [wrapper 4 0], jl = [hash_insert (core_new 4) ''k1'']\<rparr>)"
proof -
  let ?none = "\<lparr>objs = [], jl = []\<rparr> :: pyval list state"
  have nonempty: "redis_hash \<noteq> []"
    by (simp add: redis_hash_def)
  have built_simp: "built \<lparr>objs = [], jl = []\<rparr> 4 default_tau default_rho default_seed h =
      \<lparr>objs = [wrapper 4 0], jl = [h]\<rparr>" for h :: "'a"
    by (simp add: built_def wrapper_def)
  have "from_dict recorder [] 4 default_tau default_rho default_seed ?none =
      (Inl ValueError, ?none)"
    using from_dict_inserts_keys_and_values [of recorder 4 default_tau default_rho
        default_seed ?none]
    by blast
  moreover have "from_dict recorder redis_hash 4 default_tau default_rho default_seed ?none =
      (Inr 0,
       \<lparr>objs = [wrapper 4 0], jl = [[PyStr ''k1'', PyStr ''v1'', PyStr ''k2'', PyInt 7]]\<rparr>)"
    using from_dict_inserts_keys_and_values [of recorder 4 default_tau default_rho
        default_seed ?none redis_hash "[]"
        "[PyStr ''k1'', PyStr ''v1'', PyStr ''k2'', PyInt 7]"]
      nonempty redis_hash_elements(2) record_redis_hash
    by (simp add: built_simp recorder_def)
  moreover have "from_dict core redis_hash 4 default_tau default_rho default_seed no_objects =
      (Inr 0, \<lparr>objs = [wrapper 4 0], jl = [redis_sketch]\<rparr>)"
    using from_dict_inserts_keys_and_values [of core 4 default_tau default_rho
        default_seed no_objects redis_hash "core_new 4" redis_sketch]
      nonempty redis_hash_elements(2) insert_redis_hash
    by (simp add: built_simp core_simps core_create_4 no_objects_def)
  moreover have "from_dict recorder bad_hash 4 default_tau default_rho default_seed ?none =
      (Inl UnicodeDecodeError, \<lparr>objs = [wrapper 4 0], jl = [[]]\<rparr>)"
    using from_dict_inserts_keys_and_values [of recorder 4 default_tau default_rho
        default_seed ?none bad_hash "[]" "[]" "[]" "[CHR 0xFF]" "[PyBytes ''v1'']"]
      bad_hash_elements
    by (simp add: built_simp recorder_def)
  moreover have "from_dict core redis_hash 3 default_tau default_rho default_seed no_objects =
      (Inl ConfigError, no_objects)"
    using from_dict_inserts_keys_and_values [of core 3 default_tau default_rho
        default_seed no_objects redis_hash _ _ _ _ _ ConfigError]
      nonempty
    by (simp add: core_simps core_create_def P_min_def)
  moreover have "from_dict core [(PyStr ''k1'', PyNone)] 4 default_tau default_rho default_seed
      no_objects =
      (Inl InputError, \<lparr>objs = [wrapper 4 0], jl = [hash_insert (core_new 4) ''k1'']\<rparr>)"
    using from_dict_inserts_keys_and_values [of core 4 default_tau default_rho
        default_seed no_objects "[(PyStr ''k1'', PyNone)]" "core_new 4"
        "hash_insert (core_new 4) ''k1''" "[PyStr ''k1'']" _ "[]" _ PyNone InputError]
    by (simp add: built_simp core_simps core_create_4 core_add_def no_objects_def)
  ultimately show ?thesis
    using nonempty redis_hash_elements bad_hash_elements by simp
qed

section \<open>The operators leave their operands alone\<close>

text \<open>
  C8. For sketches A and B, each of \<^verbatim>\<open>union\<close>, \<^verbatim>\<open>intersection\<close>, \<^verbatim>\<open>difference\<close> and
  \<^verbatim>\<open>complement\<close> leaves both operands unchanged, whether it returns or raises: the fields
  \<^verbatim>\<open>P\<close>, \<^verbatim>\<open>tau\<close>, \<^verbatim>\<open>rho\<close>, \<^verbatim>\<open>seed\<close>, \<^verbatim>\<open>hll\<close> and the register contents behind \<^verbatim>\<open>hll\<close> are
  after the call what they were before. Every sketch it returns is a new object on a new
  Julia sketch, and the three outputs of \<^verbatim>\<open>difference\<close> are three different objects on
  three different Julia sketches.
\<close>

theorem operators_leave_operands_unchanged:
  assumes "valid s a" and "valid s b"
  shows
    "(case union_hll J a b s of
        (res, s') \<Rightarrow>
          same_object s s' a \<and> same_object s s' b \<and>
          (case res of Inr u \<Rightarrow> new_object s s' u | Inl e \<Rightarrow> True)) \<and>
     (case intersection J a b s of
        (res, s') \<Rightarrow>
          same_object s s' a \<and> same_object s s' b \<and>
          (case res of Inr u \<Rightarrow> new_object s s' u | Inl e \<Rightarrow> True)) \<and>
     (case difference J a b s of
        (res, s') \<Rightarrow>
          same_object s s' a \<and> same_object s s' b \<and>
          (case res of
             Inr (deleted, retained, new) \<Rightarrow>
               new_object s s' deleted \<and> new_object s s' retained \<and> new_object s s' new \<and>
               distinct [deleted, retained, new] \<and>
               distinct (map (\<lambda>u. self_hll (objs s' ! u)) [deleted, retained, new])
           | Inl e \<Rightarrow> True)) \<and>
     (case complement J a b s of
        (res, s') \<Rightarrow>
          same_object s s' a \<and> same_object s s' b \<and>
          (case res of Inr u \<Rightarrow> new_object s s' u | Inl e \<Rightarrow> True))"
  using assms
  by (simp add: union_hll_eq intersection_eq difference_eq complement_eq same_object_def
      new_object_def sketch_of_def valid_def wrapper_def nth_append
      split: sum.splits prod.splits)

theorem operators_leave_operands_unchanged_witness:
  "valid two_sketches 0 \<and> valid two_sketches 1 \<and>
   fst (union_hll core 0 1 two_sketches) = Inr 2 \<and>
   same_object two_sketches (snd (union_hll core 0 1 two_sketches)) 0 \<and>
   same_object two_sketches (snd (union_hll core 0 1 two_sketches)) 1 \<and>
   new_object two_sketches (snd (union_hll core 0 1 two_sketches)) 2 \<and>
   fst (intersection core 0 1 two_sketches) = Inr 2 \<and>
   same_object two_sketches (snd (intersection core 0 1 two_sketches)) 0 \<and>
   same_object two_sketches (snd (intersection core 0 1 two_sketches)) 1 \<and>
   new_object two_sketches (snd (intersection core 0 1 two_sketches)) 2 \<and>
   fst (difference core 0 1 two_sketches) = Inr (2, 3, 4) \<and>
   same_object two_sketches (snd (difference core 0 1 two_sketches)) 0 \<and>
   same_object two_sketches (snd (difference core 0 1 two_sketches)) 1 \<and>
   new_object two_sketches (snd (difference core 0 1 two_sketches)) 2 \<and>
   new_object two_sketches (snd (difference core 0 1 two_sketches)) 3 \<and>
   new_object two_sketches (snd (difference core 0 1 two_sketches)) 4 \<and>
   fst (complement core 0 1 two_sketches) = Inr 2 \<and>
   same_object two_sketches (snd (complement core 0 1 two_sketches)) 0 \<and>
   same_object two_sketches (snd (complement core 0 1 two_sketches)) 1 \<and>
   new_object two_sketches (snd (complement core 0 1 two_sketches)) 2"
  using operators_leave_operands_unchanged [of two_sketches 0 1 core]
  unfolding union_two_sketches intersection_two_sketches difference_two_sketches
    complement_two_sketches
  by (simp add: two_sketches_simps)

end
